theory Spec2Isabelle
  imports Main "HOL-Library.Monad_Syntax"
begin

section \<open>JavaScript values\<close>

text \<open>
  The library works on plain JavaScript values: configuration records, the JSON
  projections returned by \<open>toJSON()\<close> and the trees handed to the YAML printer.
  A value is \<open>undefined\<close>, \<open>null\<close>, a boolean, a number, a string, a function,
  an array or an object.

  An object \<open>JObj hidden own\<close> carries two member lists. \<open>own\<close> are its own
  enumerable properties in insertion order: what \<open>Object.entries\<close> enumerates.
  \<open>hidden\<close> are the members that the \<open>in\<close> operator and a property read see but
  \<open>Object.entries\<close> does not: inherited (prototype) members such as the methods
  of a class instance, and non-enumerable ones. An object literal has no hidden members.

  Numbers are the integral ones (\<open>NaN\<close>, the infinities and fractions are not
  represented). A string is a list of code units below 256. The ordering of
  integer-like property names, which JavaScript enumerates first, is not modelled:
  no field name of the library is integer-like.
\<close>

datatype json =
    JUndefined
  | JNull
  | JBool bool
  | JNum int
  | JStr string
  | JFunc string
  | JArr "json list"
  | JObj "(string \<times> json) list" "(string \<times> json) list"

text \<open>Property assignment \<open>result[k] = v\<close> on the own properties: an existing key keeps
  its position and takes the new value, a new key is appended. \<open>Map.set\<close> orders its
  entries the same way.\<close>

fun obj_set :: "'k \<Rightarrow> 'v \<Rightarrow> ('k \<times> 'v) list \<Rightarrow> ('k \<times> 'v) list" where
  "obj_set k v [] = [(k, v)]"
| "obj_set k v ((k', v') # es) =
     (if k' = k then (k, v) # es else (k', v') # obj_set k v es)"

text \<open>The \<open>in\<close> operator for the member names the library asks about. An array has
  its elements only.\<close>

fun has_property :: "string \<Rightarrow> json \<Rightarrow> bool" where
  "has_property k (JObj hidden own) = (k \<in> set (map fst hidden) \<or> k \<in> set (map fst own))"
| "has_property k v = False"

text \<open>A property read \<open>obj[k]\<close>: an own property shadows an inherited one, a missing
  property reads as \<open>undefined\<close>.\<close>

fun get_property :: "json \<Rightarrow> string \<Rightarrow> json" where
  "get_property (JObj hidden own) k =
     (case map_of own k of
        Some v \<Rightarrow> v
      | None \<Rightarrow> (case map_of hidden k of Some v \<Rightarrow> v | None \<Rightarrow> JUndefined))"
| "get_property v k = JUndefined"

section \<open>Key transformation and pruning (serialization/transformers.ts)\<close>

definition is_upper :: "char \<Rightarrow> bool" where
  "is_upper c = (let n = (of_char c :: nat) in 65 \<le> n \<and> n \<le> 90)"

definition to_lower :: "char \<Rightarrow> char" where
  "to_lower c = (if is_upper c then char_of ((of_char c :: nat) + 32) else c)"

text \<open>\<open>str.replace(/[A-Z]/g, letter => `_${letter.toLowerCase()}`)\<close>\<close>

definition camelToSnake :: "string \<Rightarrow> string" where
  "camelToSnake str =
     concat (map (\<lambda>letter. if is_upper letter then [CHR ''_'', to_lower letter] else [letter]) str)"

fun transformKeys :: "json \<Rightarrow> json" where
  "transformKeys JNull = JNull"
| "transformKeys JUndefined = JUndefined"
| "transformKeys (JArr xs) = JArr (map transformKeys xs)"
| "transformKeys (JObj hidden own) =
     JObj [] (foldl (\<lambda>result (k, v). obj_set (camelToSnake k) (transformKeys v) result) [] own)"
| "transformKeys v = v"

fun removeEmpty :: "json \<Rightarrow> json" where
  "removeEmpty JNull = JUndefined"
| "removeEmpty JUndefined = JUndefined"
| "removeEmpty (JArr xs) =
     (let filtered = filter (\<lambda>item. item \<noteq> JUndefined \<and> item \<noteq> JNull) (map removeEmpty xs)
      in if length filtered > 0 then JArr filtered else JUndefined)"
| "removeEmpty (JObj hidden own) =
     (let result = foldl (\<lambda>result (k, v).
                      let filteredValue = removeEmpty v
                      in if filteredValue \<noteq> JUndefined \<and> filteredValue \<noteq> JNull
                         then obj_set k filteredValue result else result) [] own
      in if length result > 0 then JObj [] result else JUndefined)"
| "removeEmpty v = v"

text \<open>
  \<open>value !== null && typeof value === 'object' && 'isSecret' in value && 'then' in value\<close>.
  \<open>typeof\<close> is \<open>'object'\<close> for objects, arrays and \<open>null\<close>.
\<close>

fun isPulumiOutput :: "json \<Rightarrow> bool" where
  "isPulumiOutput (JObj hidden own) =
     (has_property ''isSecret'' (JObj hidden own) \<and> has_property ''then'' (JObj hidden own))"
| "isPulumiOutput (JArr xs) =
     (has_property ''isSecret'' (JArr xs) \<and> has_property ''then'' (JArr xs))"
| "isPulumiOutput v = False"

subsection \<open>Predicates on trees\<close>

text \<open>A tree is \<open>pruned\<close> when it holds no \<open>null\<close>, no \<open>undefined\<close>, no empty
  array and no object without own properties, at any depth.\<close>

fun pruned :: "json \<Rightarrow> bool" where
  "pruned JUndefined = False"
| "pruned JNull = False"
| "pruned (JArr xs) = (xs \<noteq> [] \<and> list_all pruned xs)"
| "pruned (JObj hidden own) = (own \<noteq> [] \<and> list_all (\<lambda>(k, v). pruned v) own)"
| "pruned v = True"

text \<open>
  The pruning rule in the words of the spec, with \<open>None\<close> for absent: \<open>null\<close> and
  absent values are absent; a list keeps, in order, the pruned forms of its entries that
  are not absent, and is absent when none is left; an object keeps, in order, the
  members whose values do not prune to absent, with the pruned values, and is absent
  when none is left; every other value is kept as it is.
\<close>

fun prune :: "json \<Rightarrow> json option" where
  "prune JNull = None"
| "prune JUndefined = None"
| "prune (JArr xs) =
     (let kept = concat (map (\<lambda>x. case prune x of None \<Rightarrow> [] | Some y \<Rightarrow> [y]) xs)
      in if kept = [] then None else Some (JArr kept))"
| "prune (JObj hidden own) =
     (let kept = concat (map (\<lambda>(k, v). case prune v of None \<Rightarrow> [] | Some y \<Rightarrow> [(k, y)]) own)
      in if kept = [] then None else Some (JObj [] kept))"
| "prune v = Some v"

text \<open>The own property names of every object of a tree are distinct, as they are in
  a JavaScript object.\<close>

fun distinct_keys :: "json \<Rightarrow> bool" where
  "distinct_keys (JArr xs) = list_all distinct_keys xs"
| "distinct_keys (JObj hidden own) =
     (distinct (map fst own) \<and> list_all (\<lambda>(k, v). distinct_keys v) own)"
| "distinct_keys v = True"

text \<open>The keys of all objects of a tree.\<close>

fun all_keys :: "json \<Rightarrow> string list" where
  "all_keys (JArr xs) = concat (map all_keys xs)"
| "all_keys (JObj hidden own) = concat (map (\<lambda>(k, v). k # all_keys v) own)"
| "all_keys v = []"

text \<open>Every key of a tree is free of capital letters.\<close>

definition lower_keys :: "json \<Rightarrow> bool" where
  "lower_keys t = list_all (\<lambda>k. list_all (\<lambda>c. \<not> is_upper c) k) (all_keys t)"

section \<open>Errors\<close>

text \<open>
  Three kinds of exception leave the library. \<open>ZodError\<close> is the validation
  library's own error: a list of issues, each with a code, a path and a message
  (\<open>Builtin\<close> stands for the library's wording where the schema gives none). An
  issue is a union tagged by its code: an \<open>invalid_type\<close> issue carries the expected
  type and the type received, an \<open>invalid_enum_value\<close> issue carries the value received
  and the options.
  \<open>ValidationError\<close> is the class of base/ValidationError.ts with its \<open>field\<close>,
  \<open>value\<close> and \<open>constraint\<close>. \<open>Error\<close> is a plain JavaScript \<open>Error\<close> with
  its message, \<open>TypeError\<close> the runtime's error for a member read on \<open>null\<close> or
  \<open>undefined\<close>.
\<close>

datatype zod_issue_code =
    invalid_type string string
  | invalid_enum_value json "string list"
  | invalid_string
  | too_small
  | too_big
  | custom

datatype path_elem = Key string | Index nat

datatype zod_message = Message string | Builtin

datatype zod_issue =
  ZodIssue (issue_code: zod_issue_code) (issue_path: "path_elem list") (issue_message: zod_message)

datatype error =
    ZodError "zod_issue list"
  | ValidationError string json string
  | Error string
  | TypeError string

text \<open>The \<open>received\<close> member of an issue: present on type and enum mismatches only.\<close>

definition issue_received :: "zod_issue \<Rightarrow> json" where
  "issue_received issue =
     (case issue_code issue of
        invalid_type expected received \<Rightarrow> JStr received
      | invalid_enum_value received options \<Rightarrow> received
      | _ \<Rightarrow> JUndefined)"

text \<open>A \<open>ZodError\<close> with at least one issue.\<close>

fun zod_failure :: "error \<Rightarrow> bool" where
  "zod_failure (ZodError issues) = (issues \<noteq> [])"
| "zod_failure e = False"

fun is_ValidationError :: "error \<Rightarrow> bool" where
  "is_ValidationError (ValidationError field val constraint) = True"
| "is_ValidationError e = False"

section \<open>Serialization (serialization/serializer.ts)\<close>

text \<open>
  The YAML printer (\<open>yaml.dump\<close> with indent 2, unbounded line width, no references,
  insertion order) and the resolution backend (\<open>pulumi.all\<close>, reached through a
  dynamic import) are external collaborators: the functions below take them as
  parameters. The printer returns text or throws. The backend is \<open>None\<close> when the
  import fails; when present it resolves a list of deferred values or rejects.
  An asynchronous function is modelled by its awaited outcome: the resolved value or
  the rejection.
\<close>

type_synonym printer = "json \<Rightarrow> error + string"
type_synonym pulumi = "json list \<Rightarrow> error + json list"

fun extractPulumiOutputs :: "json \<Rightarrow> (json \<times> string) list \<Rightarrow> (json \<times> string) list" where
  "extractPulumiOutputs (JArr xs) outputs =
     (if isPulumiOutput (JArr xs) then outputs @ [(JArr xs, '''')]
      else foldl (\<lambda>outputs item. extractPulumiOutputs item outputs) outputs xs)"
| "extractPulumiOutputs (JObj hidden own) outputs =
     (if isPulumiOutput (JObj hidden own) then outputs @ [(JObj hidden own, '''')]
      else foldl (\<lambda>outputs (k, v). extractPulumiOutputs v outputs) outputs own)"
| "extractPulumiOutputs obj outputs =
     (if isPulumiOutput obj then outputs @ [(obj, '''')] else outputs)"

text \<open>\<open>new Map(pairs)\<close> and \<open>Map.get\<close>. The map is keyed by object identity in the
  source; here two deferred values are the same key when they are equal as trees.\<close>

definition new_Map :: "('k \<times> 'v) list \<Rightarrow> ('k \<times> 'v) list" where
  "new_Map pairs = foldl (\<lambda>m (k, v). obj_set k v m) [] pairs"

definition Map_get :: "(json \<times> json) list \<Rightarrow> json \<Rightarrow> json" where
  "Map_get m k = (case map_of m k of Some v \<Rightarrow> v | None \<Rightarrow> JUndefined)"

fun replacePulumiOutputs :: "json \<Rightarrow> (json \<times> json) list \<Rightarrow> json" where
  "replacePulumiOutputs (JArr xs) resolvedMap =
     (if isPulumiOutput (JArr xs) then Map_get resolvedMap (JArr xs)
      else JArr (map (\<lambda>item. replacePulumiOutputs item resolvedMap) xs))"
| "replacePulumiOutputs (JObj hidden own) resolvedMap =
     (if isPulumiOutput (JObj hidden own) then Map_get resolvedMap (JObj hidden own)
      else JObj [] (foldl (\<lambda>result (k, v). obj_set k (replacePulumiOutputs v resolvedMap) result)
                      [] own))"
| "replacePulumiOutputs obj resolvedMap =
     (if isPulumiOutput obj then Map_get resolvedMap obj else obj)"

definition importPulumi :: "pulumi option \<Rightarrow> error + pulumi" where
  "importPulumi backend =
     (case backend of
        Some p \<Rightarrow> Inr p
      | None \<Rightarrow> Inl (Error (''Pulumi is required for resolving Pulumi Outputs. '' @
                            ''Install it with: npm install @pulumi/pulumi'')))"

text \<open>\<open>resolved[index]\<close>: an index past the end reads \<open>undefined\<close>.\<close>

definition at_index :: "json list \<Rightarrow> nat \<Rightarrow> json" where
  "at_index xs i = (if i < length xs then xs ! i else JUndefined)"

text \<open>The body of the \<open>try\<close> block of \<open>toYAML\<close>: any exception in it, of the import,
  of the backend or of the printer, is an \<open>Inl\<close> here and is caught by the caller.\<close>

definition toYAML_try :: "printer \<Rightarrow> pulumi option \<Rightarrow> json \<Rightarrow> (json \<times> string) list \<Rightarrow> error + string" where
  "toYAML_try dump backend obj pulumiOutputs =
     (case importPulumi backend of
        Inl e \<Rightarrow> Inl e
      | Inr pulumi \<Rightarrow>
          (case pulumi (map fst pulumiOutputs) of
             Inl e \<Rightarrow> Inl e
           | Inr resolved \<Rightarrow>
               (let resolvedMap = new_Map (map (\<lambda>(index, output). (fst output, at_index resolved index))
                                              (enumerate 0 pulumiOutputs));
                    objWithResolved = replacePulumiOutputs obj resolvedMap;
                    cleaned = removeEmpty objWithResolved;
                    transformed = transformKeys cleaned
                in dump transformed)))"

definition toYAML :: "printer \<Rightarrow> pulumi option \<Rightarrow> json \<Rightarrow> error + string" where
  "toYAML dump backend obj =
     (let pulumiOutputs = extractPulumiOutputs obj []
      in if length pulumiOutputs > 0 then
           (case toYAML_try dump backend obj pulumiOutputs of
              Inr text \<Rightarrow> Inr text
            | Inl e \<Rightarrow>
                (let cleaned = removeEmpty obj; transformed = transformKeys cleaned
                 in dump transformed))
         else
           (let cleaned = removeEmpty obj; transformed = transformKeys cleaned
            in dump transformed))"

definition toYAMLSync :: "printer \<Rightarrow> json \<Rightarrow> error + string" where
  "toYAMLSync dump obj =
     (let pulumiOutputs = extractPulumiOutputs obj []
      in if length pulumiOutputs > 0 then
           Inl (Error ''Pulumi Outputs found. Use async toYAML() instead to resolve them.'')
         else
           (let cleaned = removeEmpty obj; transformed = transformKeys cleaned
            in dump transformed))"

text \<open>A tree is free of deferred values when no array or object of it, at any depth of
  its elements and own properties, has both an \<open>isSecret\<close> and a \<open>then\<close> member.\<close>

fun deferred_free :: "json \<Rightarrow> bool" where
  "deferred_free (JArr xs) = (\<not> isPulumiOutput (JArr xs) \<and> list_all deferred_free xs)"
| "deferred_free (JObj hidden own) =
     (\<not> isPulumiOutput (JObj hidden own) \<and> list_all (\<lambda>(k, v). deferred_free v) own)"
| "deferred_free v = True"

section \<open>A model of the YAML printer\<close>

text \<open>
  Modelled from the spec: the YAML printer is js-yaml's \<open>dump\<close>, an external
  collaborator that is not part of the repository. The spec describes it as a printer
  of an ordered mapping of string keys to primitive and aggregate values, with 2-space
  indentation, no line wrapping, no anchors and keys in insertion order, which writes a
  purely numeric-looking string in quotes. The model below follows that description for
  block mappings and sequences, the flow forms \<open>[]\<close> and \<open>{}\<close> of empty
  containers, and scalars. A string of printable characters is written plain when it
  starts with a letter, a digit, \<open>_\<close>, \<open>.\<close> or \<open>/\<close>, continues with those,
  \<open>-\<close>, \<open>@\<close>, \<open>:\<close> and single spaces inside, holds no \<open>: \<close>, does not end
  in \<open>:\<close> or a space, is not made of digits only and is not a YAML keyword; any other
  string is written in single quotes. A function cannot be printed; an \<open>undefined\<close>
  member of a mapping is left out and an \<open>undefined\<close> element of a sequence is written
  \<open>null\<close>. The functions of the library take the printer as a parameter; this model
  is one instance of it.
\<close>

definition digit_char :: "nat \<Rightarrow> char" where
  "digit_char d = char_of (48 + d)"

function show_nat :: "nat \<Rightarrow> string" where
  "show_nat n = (if n < 10 then [digit_char n] else show_nat (n div 10) @ [digit_char (n mod 10)])"
  by pat_completeness auto
termination
  by (relation "measure (\<lambda>n. n)") auto

declare show_nat.simps [simp del]

definition show_int :: "int \<Rightarrow> string" where
  "show_int i = (if i < 0 then CHR ''-'' # show_nat (nat (- i)) else show_nat (nat i))"

definition is_digit :: "char \<Rightarrow> bool" where
  "is_digit c = (let n = (of_char c :: nat) in 48 \<le> n \<and> n \<le> 57)"

definition is_letter :: "char \<Rightarrow> bool" where
  "is_letter c = (let n = (of_char c :: nat) in (65 \<le> n \<and> n \<le> 90) \<or> (97 \<le> n \<and> n \<le> 122))"

definition plain_first :: "char \<Rightarrow> bool" where
  "plain_first c = (is_letter c \<or> is_digit c \<or> c \<in> set ''_./'')"

definition plain_inner :: "char \<Rightarrow> bool" where
  "plain_inner c = (is_letter c \<or> is_digit c \<or> c \<in> set ''_./-@: '')"

fun colon_space :: "string \<Rightarrow> bool" where
  "colon_space (a # b # s) = ((a = CHR '':'' \<and> b = CHR '' '') \<or> colon_space (b # s))"
| "colon_space s = False"

definition yaml_keywords :: "string list" where
  "yaml_keywords = [''null'', ''Null'', ''NULL'', ''true'', ''True'', ''TRUE'',
                    ''false'', ''False'', ''FALSE'']"

definition plain_scalar :: "string \<Rightarrow> bool" where
  "plain_scalar s =
     (case s of
        [] \<Rightarrow> False
      | c # cs \<Rightarrow>
          plain_first c \<and> list_all plain_inner cs
          \<and> last s \<noteq> CHR '':'' \<and> last s \<noteq> CHR '' ''
          \<and> \<not> colon_space s
          \<and> \<not> list_all is_digit s
          \<and> s \<notin> set yaml_keywords)"

definition yaml_string :: "string \<Rightarrow> string" where
  "yaml_string s =
     (if plain_scalar s then s
      else [CHR 0x27] @ concat (map (\<lambda>c. if c = CHR 0x27 then [c, c] else [c]) s) @ [CHR 0x27])"

text \<open>A node that is written on the line of its key or dash.\<close>

fun yaml_inline :: "json \<Rightarrow> string" where
  "yaml_inline JUndefined = ''null''"
| "yaml_inline JNull = ''null''"
| "yaml_inline (JBool b) = (if b then ''true'' else ''false'')"
| "yaml_inline (JNum n) = show_int n"
| "yaml_inline (JStr s) = yaml_string s"
| "yaml_inline (JFunc f) = []"
| "yaml_inline (JArr xs) = ''[]''"
| "yaml_inline (JObj hidden own) = ''{}''"

text \<open>A node that takes lines of its own: a sequence with an element, a mapping with a
  member that is not \<open>undefined\<close>.\<close>

fun is_block :: "json \<Rightarrow> bool" where
  "is_block (JArr xs) = (xs \<noteq> [])"
| "is_block (JObj hidden own) = (filter (\<lambda>(k, v). v \<noteq> JUndefined) own \<noteq> [])"
| "is_block v = False"

definition indent :: "string \<Rightarrow> string" where
  "indent line = ''  '' @ line"

fun yaml_lines :: "json \<Rightarrow> string list" where
  "yaml_lines (JArr xs) =
     (if xs = [] then [yaml_inline (JArr xs)]
      else concat (map (\<lambda>item.
             if is_block item
             then (case yaml_lines item of
                     [] \<Rightarrow> []
                   | l # ls \<Rightarrow> (''- '' @ l) # map indent ls)
             else [''- '' @ yaml_inline item]) xs))"
| "yaml_lines (JObj hidden own) =
     (if \<not> is_block (JObj hidden own) then [yaml_inline (JObj hidden own)]
      else concat (map (\<lambda>(k, v).
             if v = JUndefined then []
             else if is_block v then (yaml_string k @ '':'') # map indent (yaml_lines v)
             else [yaml_string k @ '': '' @ yaml_inline v]) own))"
| "yaml_lines v = [yaml_inline v]"

fun has_function :: "json \<Rightarrow> bool" where
  "has_function (JFunc f) = True"
| "has_function (JArr xs) = list_ex has_function xs"
| "has_function (JObj hidden own) = list_ex (\<lambda>(k, v). has_function v) own"
| "has_function v = False"

text \<open>Lines joined into a text, each closed by a line feed.\<close>

definition unlines :: "string list \<Rightarrow> string" where
  "unlines ls = concat (map (\<lambda>line. line @ [CHR 0x0A]) ls)"

definition yaml_dump :: printer where
  "yaml_dump obj =
     (if obj = JUndefined then Inr []
      else if has_function obj
      then Inl (Error ''unacceptable kind of an object to dump [object Function]'')
      else Inr (unlines (yaml_lines obj)))"

section \<open>Schemas (validation/schemas.ts)\<close>

text \<open>
  The schemas are written with the zod library (its version 3 interface: \<open>ZodError\<close>,
  \<open>ZodIssueCode\<close>, \<open>safeParse\<close>), which is not part of the repository; the combinators
  below give the parse semantics of the constructs the schemas use. A schema is modelled
  by its synchronous parse function: given the path of the value and the value, it returns the issues it
  adds, in order, and the parsed value, \<open>None\<close> when the parse is aborted. A type
  mismatch aborts; a failed check or refinement adds its issue and keeps the value;
  an object or array is aborted when one of its members is, after all members have been
  parsed; a refinement of an aborted value is not run. \<open>parse\<close> succeeds when no issue
  was added and throws a \<open>ZodError\<close> with the issues otherwise.
\<close>

type_synonym 'a schema = "path_elem list \<Rightarrow> json \<Rightarrow> zod_issue list \<times> 'a option"

text \<open>The library's name for the type of a value, as it appears in the \<open>received\<close>
  member of a type mismatch. Promise-like, \<open>Map\<close>, \<open>Set\<close> and \<open>Date\<close> objects
  are not told apart from other objects.\<close>

fun parsed_type :: "json \<Rightarrow> string" where
  "parsed_type JUndefined = ''undefined''"
| "parsed_type JNull = ''null''"
| "parsed_type (JBool b) = ''boolean''"
| "parsed_type (JNum n) = ''number''"
| "parsed_type (JStr s) = ''string''"
| "parsed_type (JFunc f) = ''function''"
| "parsed_type (JArr xs) = ''array''"
| "parsed_type (JObj hidden own) = ''object''"

text \<open>The options of an enum as an expected type: each in single quotes, joined by
  \<open> | \<close>.\<close>

fun join_values :: "string list \<Rightarrow> string" where
  "join_values [] = []"
| "join_values [v] = [CHR 0x27] @ v @ [CHR 0x27]"
| "join_values (v # vs) = [CHR 0x27] @ v @ [CHR 0x27] @ '' | '' @ join_values vs"

definition z_string :: "string schema" where
  "z_string path data =
     (case data of
        JStr s \<Rightarrow> ([], Some s)
      | _ \<Rightarrow> ([ZodIssue (invalid_type ''string'' (parsed_type data)) path Builtin], None))"

text \<open>Every number of the model is finite (not \<open>NaN\<close>).\<close>

definition z_number :: "int schema" where
  "z_number path data =
     (case data of
        JNum n \<Rightarrow> ([], Some n)
      | _ \<Rightarrow> ([ZodIssue (invalid_type ''number'' (parsed_type data)) path Builtin], None))"

definition z_boolean :: "bool schema" where
  "z_boolean path data =
     (case data of
        JBool b \<Rightarrow> ([], Some b)
      | _ \<Rightarrow> ([ZodIssue (invalid_type ''boolean'' (parsed_type data)) path Builtin], None))"

definition z_any :: "json schema" where
  "z_any path data = ([], Some data)"

definition z_enum :: "string list \<Rightarrow> string schema" where
  "z_enum options path data =
     (case data of
        JStr s \<Rightarrow> (if s \<in> set options then ([], Some s)
                   else ([ZodIssue (invalid_enum_value data options) path Builtin], None))
      | _ \<Rightarrow> ([ZodIssue (invalid_type (join_values options) (parsed_type data)) path Builtin],
              None))"

text \<open>A check of a string or number schema (\<open>.min\<close>, \<open>.max\<close>, \<open>.int\<close>, \<open>.regex\<close>,
  \<open>.startsWith\<close>) and a refinement (\<open>.refine\<close>, issue code \<open>custom\<close>).\<close>

definition check :: "zod_issue_code \<Rightarrow> zod_message \<Rightarrow> ('a \<Rightarrow> bool) \<Rightarrow> 'a schema \<Rightarrow> 'a schema" where
  "check code msg ok inner path data =
     (case inner path data of
        (issues, None) \<Rightarrow> (issues, None)
      | (issues, Some v) \<Rightarrow>
          (if ok v then (issues, Some v) else (issues @ [ZodIssue code path msg], Some v)))"

definition refine :: "('a \<Rightarrow> bool) \<Rightarrow> string \<Rightarrow> 'a schema \<Rightarrow> 'a schema" where
  "refine ok msg inner = check custom (Message msg) ok inner"

text \<open>\<open>.int()\<close>: the numbers of the model are the integral ones, so the check holds of
  each of them.\<close>

definition z_int :: "int schema \<Rightarrow> int schema" where
  "z_int inner = check (invalid_type ''integer'' ''float'') Builtin (\<lambda>n. True) inner"

definition z_min :: "int \<Rightarrow> zod_message \<Rightarrow> int schema \<Rightarrow> int schema" where
  "z_min m msg inner = check too_small msg (\<lambda>n. m \<le> n) inner"

definition z_max :: "int \<Rightarrow> zod_message \<Rightarrow> int schema \<Rightarrow> int schema" where
  "z_max m msg inner = check too_big msg (\<lambda>n. n \<le> m) inner"

definition z_optional :: "'a schema \<Rightarrow> 'a option schema" where
  "z_optional inner path data =
     (if data = JUndefined then ([], Some None)
      else (case inner path data of (issues, r) \<Rightarrow> (issues, map_option Some r)))"

definition z_default :: "json \<Rightarrow> 'a schema \<Rightarrow> 'a schema" where
  "z_default d inner path data = inner path (if data = JUndefined then d else data)"

definition z_array :: "'a schema \<Rightarrow> 'a list schema" where
  "z_array element path data =
     (case data of
        JArr xs \<Rightarrow>
          (let results = map (\<lambda>(i, x). element (path @ [Index i]) x) (enumerate 0 xs)
           in (concat (map fst results),
               if list_all (\<lambda>r. snd r \<noteq> None) results then Some (map (\<lambda>r. the (snd r)) results)
               else None))
      | _ \<Rightarrow> ([ZodIssue (invalid_type ''array'' (parsed_type data)) path Builtin], None))"

text \<open>The member \<open>k\<close> of an object schema: the member schema runs on \<open>data[k]\<close> at the
  path extended by \<open>k\<close>.\<close>

definition field :: "'a schema \<Rightarrow> path_elem list \<Rightarrow> json \<Rightarrow> string \<Rightarrow> zod_issue list \<times> 'a option" where
  "field inner path data k = inner (path @ [Key k]) (get_property data k)"

definition parse :: "'a schema \<Rightarrow> json \<Rightarrow> error + 'a" where
  "parse sch data =
     (case sch [] data of
        ([], Some v) \<Rightarrow> Inr v
      | ([], None) \<Rightarrow> Inl (Error ''Validation failed but no issues detected.'')
      | (issues, r) \<Rightarrow> Inl (ZodError issues))"

subsection \<open>Conversion to ValidationError (validation/ZodError.ts, validation/validate.ts)\<close>

text \<open>
  \<open>fromZodError\<close> turns the first issue of a \<open>ZodError\<close> into a \<open>ValidationError\<close>:
  the path joined by dots, the issue's \<open>received\<close> member and its message. The
  library's wording of an issue without a message of the schema is a parameter.
  \<open>validate\<close> and \<open>validateWithPrefix\<close> are the only callers; no constructor and no
  operation of a resource calls them.
\<close>

fun path_text :: "path_elem \<Rightarrow> string" where
  "path_text (Key k) = k"
| "path_text (Index i) = show_nat i"

fun join_path :: "path_elem list \<Rightarrow> string" where
  "join_path [] = []"
| "join_path [e] = path_text e"
| "join_path (e # es) = path_text e @ ''.'' @ join_path es"

definition message_text :: "(zod_issue \<Rightarrow> string) \<Rightarrow> zod_issue \<Rightarrow> string" where
  "message_text wording issue =
     (case issue_message issue of Message m \<Rightarrow> m | Builtin \<Rightarrow> wording issue)"

definition fromZodError :: "(zod_issue \<Rightarrow> string) \<Rightarrow> zod_issue list \<Rightarrow> error" where
  "fromZodError wording issues =
     (case issues of
        [] \<Rightarrow> ValidationError ''unknown'' JNull ''Unknown validation error''
      | issue # rest \<Rightarrow>
          (let fld = (if length (issue_path issue) > 0 then join_path (issue_path issue)
                      else ''unknown'');
               val = issue_received issue;
               constraint = (if message_text wording issue = [] then ''Validation failed''
                             else message_text wording issue)
           in ValidationError fld val constraint))"

definition validate :: "(zod_issue \<Rightarrow> string) \<Rightarrow> 'a schema \<Rightarrow> json \<Rightarrow> error + 'a" where
  "validate wording sch input =
     (case parse sch input of
        Inr data \<Rightarrow> Inr data
      | Inl (ZodError issues) \<Rightarrow> Inl (fromZodError wording issues)
      | Inl e \<Rightarrow> Inl e)"

definition validateWithPrefix ::
  "(zod_issue \<Rightarrow> string) \<Rightarrow> 'a schema \<Rightarrow> json \<Rightarrow> string \<Rightarrow> error + 'a" where
  "validateWithPrefix wording sch input prefix =
     (case validate wording sch input of
        Inl (ValidationError fld val constraint) \<Rightarrow>
          Inl (ValidationError (prefix @ ''.'' @ fld) val constraint)
      | r \<Rightarrow> r)"

text \<open>A schema reports when each aborted parse adds an issue.\<close>

definition reports :: "'a schema \<Rightarrow> bool" where
  "reports sch = (\<forall>p d. snd (sch p d) = None \<longrightarrow> fst (sch p d) \<noteq> [])"

text \<open>\<open>String.prototype.trim\<close> on code units below 256: tab, line feed, vertical tab, form
  feed, carriage return, space and no-break space are white space.\<close>

definition is_space :: "char \<Rightarrow> bool" where
  "is_space c = ((of_char c :: nat) \<in> {9, 10, 11, 12, 13, 32, 160})"

definition trim :: "string \<Rightarrow> string" where
  "trim s = rev (dropWhile is_space (rev (dropWhile is_space s)))"

definition non_empty :: "string \<Rightarrow> bool" where
  "non_empty val = (length (trim val) > 0)"

definition EnvVarType :: "string schema" where
  "EnvVarType = z_enum [''GENERAL'', ''SECRET'']"

definition EnvVarScope :: "string schema" where
  "EnvVarScope = z_enum [''RUN_TIME'', ''BUILD_TIME'', ''DEPLOY_TIME'']"

definition DockerRegistryType :: "string schema" where
  "DockerRegistryType = z_enum [''DOCKER_HUB'', ''DOCR'', ''GHCR'']"

text \<open>\<open>/^[a-zA-Z0-9_-]+\/[a-zA-Z0-9_-]+$/\<close>\<close>

definition repo_char :: "char \<Rightarrow> bool" where
  "repo_char c =
     (let n = (of_char c :: nat)
      in (97 \<le> n \<and> n \<le> 122) \<or> (65 \<le> n \<and> n \<le> 90) \<or> (48 \<le> n \<and> n \<le> 57)
         \<or> c = CHR ''_'' \<or> c = CHR ''-'')"

definition GITHUB_REPO_PATTERN :: "string \<Rightarrow> bool" where
  "GITHUB_REPO_PATTERN s =
     (let owner = takeWhile repo_char s; rest = dropWhile repo_char s
      in owner \<noteq> [] \<and>
         (case rest of
            [] \<Rightarrow> False
          | c # repo \<Rightarrow> c = CHR ''/'' \<and> repo \<noteq> [] \<and> list_all repo_char repo))"

definition INSTANCE_SIZE_SLUGS :: "string list" where
  "INSTANCE_SIZE_SLUGS =
     [''basic-xxs'', ''basic-xs'', ''basic-s'', ''basic-m'',
      ''professional-xs'', ''professional-s'', ''professional-m'', ''professional-l'']"

section \<open>Configuration entities (config/*.ts)\<close>

text \<open>Each entity is a record of the fields its constructor copies from the parsed data.\<close>

record EnvironmentVariable =
  ev_key :: string
  ev_value :: json
  ev_type :: string
  ev_scope :: string

record HealthCheck =
  hc_httpPath :: string
  hc_port :: int
  hc_initialDelaySeconds :: int
  hc_periodSeconds :: int
  hc_timeoutSeconds :: int
  hc_successThreshold :: int
  hc_failureThreshold :: int

record DockerImage =
  di_registryType :: string
  di_registry :: "string option"
  di_repository :: string
  di_tag :: string

record GitHubSource =
  gh_repo :: string
  gh_branch :: string
  gh_sourceDir :: string
  gh_dockerfilePath :: string
  gh_deployOnPush :: bool

record VolumeMount =
  vm_name :: string
  vm_mountPath :: string
  vm_size :: string

definition object_type_issue :: "path_elem list \<Rightarrow> json \<Rightarrow> zod_issue list \<times> 'a option" where
  "object_type_issue path data =
     ([ZodIssue (invalid_type ''object'' (parsed_type data)) path Builtin], None)"

definition EnvironmentVariableSchema :: "EnvironmentVariable schema" where
  "EnvironmentVariableSchema path data =
     (case data of
        JObj hidden own \<Rightarrow>
          (let (i1, key) = field (refine non_empty ''Key must be non-empty'' z_string) path data ''key'';
               (i2, val) = field (refine (\<lambda>val. val \<noteq> JUndefined \<and> val \<noteq> JNull) ''Value is required'' z_any)
                             path data ''value'';
               (i3, type) = field (z_default (JStr ''GENERAL'') EnvVarType) path data ''type'';
               (i4, scope) = field (z_default (JStr ''RUN_TIME'') EnvVarScope) path data ''scope''
           in (i1 @ i2 @ i3 @ i4,
               do { k \<leftarrow> key; v \<leftarrow> val; t \<leftarrow> type; s \<leftarrow> scope;
                    Some \<lparr>ev_key = k, ev_value = v, ev_type = t, ev_scope = s\<rparr> }))
      | _ \<Rightarrow> object_type_issue path data)"

definition HealthCheckSchema :: "HealthCheck schema" where
  "HealthCheckSchema path data =
     (case data of
        JObj hidden own \<Rightarrow>
          (let (i1, httpPath) = field (refine non_empty ''HTTP path must be non-empty'' z_string)
                                  path data ''httpPath'';
               (i2, port) = field (z_max 65535 (Message ''Port must be between 1 and 65535'')
                                     (z_min 1 Builtin (z_int z_number))) path data ''port'';
               (i3, initialDelaySeconds) =
                  field (z_default (JNum 0) (z_min 0 Builtin (z_int z_number))) path data ''initialDelaySeconds'';
               (i4, periodSeconds) =
                  field (z_default (JNum 10) (z_min 1 Builtin (z_int z_number))) path data ''periodSeconds'';
               (i5, timeoutSeconds) =
                  field (z_default (JNum 1) (z_min 1 Builtin (z_int z_number))) path data ''timeoutSeconds'';
               (i6, successThreshold) =
                  field (z_default (JNum 1) (z_min 1 Builtin (z_int z_number))) path data ''successThreshold'';
               (i7, failureThreshold) =
                  field (z_default (JNum 3) (z_min 1 Builtin (z_int z_number))) path data ''failureThreshold''
           in (i1 @ i2 @ i3 @ i4 @ i5 @ i6 @ i7,
               do { a \<leftarrow> httpPath; b \<leftarrow> port; c \<leftarrow> initialDelaySeconds; d \<leftarrow> periodSeconds;
                    e \<leftarrow> timeoutSeconds; f \<leftarrow> successThreshold; g \<leftarrow> failureThreshold;
                    Some \<lparr>hc_httpPath = a, hc_port = b, hc_initialDelaySeconds = c,
                          hc_periodSeconds = d, hc_timeoutSeconds = e, hc_successThreshold = f,
                          hc_failureThreshold = g\<rparr> }))
      | _ \<Rightarrow> object_type_issue path data)"

text \<open>The object part of \<open>DockerImageSchema\<close>, and the schema with its refinement: the
  refinement runs unless the object part is aborted, and reports at the \<open>registry\<close> path.\<close>

definition DockerImageObject :: "DockerImage schema" where
  "DockerImageObject path data =
     (case data of
        JObj hidden own \<Rightarrow>
          (let (i1, registryType) = field DockerRegistryType path data ''registryType'';
               (i2, registry) =
                  field (z_optional (refine non_empty ''Registry must be non-empty when specified'' z_string))
                    path data ''registry'';
               (i3, repository) = field (refine non_empty ''Repository must be non-empty'' z_string)
                                    path data ''repository'';
               (i4, tag) = field (refine non_empty ''Tag must be non-empty'' z_string) path data ''tag''
           in (i1 @ i2 @ i3 @ i4,
               do { a \<leftarrow> registryType; b \<leftarrow> registry; c \<leftarrow> repository; d \<leftarrow> tag;
                    Some \<lparr>di_registryType = a, di_registry = b, di_repository = c, di_tag = d\<rparr> }))
      | _ \<Rightarrow> object_type_issue path data)"

definition docr_has_registry :: "DockerImage \<Rightarrow> bool" where
  "docr_has_registry data =
     (if di_registryType data = ''DOCR''
      then (case di_registry data of None \<Rightarrow> False | Some registry \<Rightarrow> length (trim registry) > 0)
      else True)"

definition DockerImageSchema :: "DockerImage schema" where
  "DockerImageSchema path data =
     (case DockerImageObject path data of
        (issues, None) \<Rightarrow> (issues, None)
      | (issues, Some v) \<Rightarrow>
          (if docr_has_registry v then (issues, Some v)
           else (issues @ [ZodIssue custom (path @ [Key ''registry''])
                             (Message ''DOCR registry type requires non-empty registry field'')],
                 Some v)))"

definition GitHubSourceSchema :: "GitHubSource schema" where
  "GitHubSourceSchema path data =
     (case data of
        JObj hidden own \<Rightarrow>
          (let (i1, repo) =
                  field (check invalid_string
                           (Message (''Must be in format '' @ [CHR 0x22] @ ''owner/repo'' @ [CHR 0x22]))
                           GITHUB_REPO_PATTERN z_string) path data ''repo'';
               (i2, branch) = field (refine non_empty ''Branch must be non-empty'' z_string) path data ''branch'';
               (i3, sourceDir) = field (z_default (JStr ''/'') z_string) path data ''sourceDir'';
               (i4, dockerfilePath) =
                  field (z_default (JStr ''Dockerfile'')
                           (refine non_empty ''Dockerfile path must be non-empty'' z_string))
                    path data ''dockerfilePath'';
               (i5, deployOnPush) = field (z_default (JBool False) z_boolean) path data ''deployOnPush''
           in (i1 @ i2 @ i3 @ i4 @ i5,
               do { a \<leftarrow> repo; b \<leftarrow> branch; c \<leftarrow> sourceDir; d \<leftarrow> dockerfilePath; e \<leftarrow> deployOnPush;
                    Some \<lparr>gh_repo = a, gh_branch = b, gh_sourceDir = c, gh_dockerfilePath = d,
                          gh_deployOnPush = e\<rparr> }))
      | _ \<Rightarrow> object_type_issue path data)"

definition VolumeMountSchema :: "VolumeMount schema" where
  "VolumeMountSchema path data =
     (case data of
        JObj hidden own \<Rightarrow>
          (let (i1, name) = field (refine non_empty ''Name must be non-empty'' z_string) path data ''name'';
               (i2, mountPath) =
                  field (check invalid_string (Message ''Must be an absolute path (starting with /)'')
                           (\<lambda>s. take 1 s = ''/'') z_string) path data ''mountPath'';
               (i3, sz) =
                  field (z_default (JStr ''1GB'')
                           (check too_small (Message ''Size must be non-empty'') (\<lambda>s. 1 \<le> length s) z_string))
                    path data ''size''
           in (i1 @ i2 @ i3,
               do { a \<leftarrow> name; b \<leftarrow> mountPath; c \<leftarrow> sz;
                    Some \<lparr>vm_name = a, vm_mountPath = b, vm_size = c\<rparr> }))
      | _ \<Rightarrow> object_type_issue path data)"

subsection \<open>Constructors and projections\<close>

definition EnvironmentVariable_new :: "json \<Rightarrow> error + EnvironmentVariable" where
  "EnvironmentVariable_new config =
     (case parse EnvironmentVariableSchema config of
        Inl e \<Rightarrow> Inl e
      | Inr data \<Rightarrow> Inr \<lparr>ev_key = ev_key data, ev_value = ev_value data,
                          ev_type = ev_type data, ev_scope = ev_scope data\<rparr>)"

definition EnvironmentVariable_toJSON :: "EnvironmentVariable \<Rightarrow> json" where
  "EnvironmentVariable_toJSON this =
     JObj [] [(''key'', JStr (ev_key this)), (''value'', ev_value this),
              (''type'', JStr (ev_type this)), (''scope'', JStr (ev_scope this))]"

definition HealthCheck_new :: "json \<Rightarrow> error + HealthCheck" where
  "HealthCheck_new config =
     (case parse HealthCheckSchema config of
        Inl e \<Rightarrow> Inl e
      | Inr data \<Rightarrow>
          Inr \<lparr>hc_httpPath = hc_httpPath data, hc_port = hc_port data,
               hc_initialDelaySeconds = hc_initialDelaySeconds data,
               hc_periodSeconds = hc_periodSeconds data, hc_timeoutSeconds = hc_timeoutSeconds data,
               hc_successThreshold = hc_successThreshold data,
               hc_failureThreshold = hc_failureThreshold data\<rparr>)"

definition HealthCheck_toJSON :: "HealthCheck \<Rightarrow> json" where
  "HealthCheck_toJSON this =
     JObj [] [(''httpPath'', JStr (hc_httpPath this)), (''port'', JNum (hc_port this)),
              (''initialDelaySeconds'', JNum (hc_initialDelaySeconds this)),
              (''periodSeconds'', JNum (hc_periodSeconds this)),
              (''timeoutSeconds'', JNum (hc_timeoutSeconds this)),
              (''successThreshold'', JNum (hc_successThreshold this)),
              (''failureThreshold'', JNum (hc_failureThreshold this))]"

definition DockerImage_new :: "json \<Rightarrow> error + DockerImage" where
  "DockerImage_new config =
     (case parse DockerImageSchema config of
        Inl e \<Rightarrow> Inl e
      | Inr data \<Rightarrow> Inr \<lparr>di_registryType = di_registryType data, di_registry = di_registry data,
                          di_repository = di_repository data, di_tag = di_tag data\<rparr>)"

text \<open>\<open>if (this.registry)\<close>: \<open>undefined\<close> and the empty string are falsy.\<close>

definition DockerImage_toJSON :: "DockerImage \<Rightarrow> json" where
  "DockerImage_toJSON this =
     (let json = [(''registryType'', JStr (di_registryType this)),
                  (''repository'', JStr (di_repository this)), (''tag'', JStr (di_tag this))]
      in JObj [] (case di_registry this of
                    Some registry \<Rightarrow>
                      (if registry \<noteq> [] then obj_set ''registry'' (JStr registry) json else json)
                  | None \<Rightarrow> json))"

definition GitHubSource_new :: "json \<Rightarrow> error + GitHubSource" where
  "GitHubSource_new config =
     (case parse GitHubSourceSchema config of
        Inl e \<Rightarrow> Inl e
      | Inr data \<Rightarrow> Inr \<lparr>gh_repo = gh_repo data, gh_branch = gh_branch data,
                          gh_sourceDir = gh_sourceDir data,
                          gh_dockerfilePath = gh_dockerfilePath data,
                          gh_deployOnPush = gh_deployOnPush data\<rparr>)"

definition GitHubSource_toJSON :: "GitHubSource \<Rightarrow> json" where
  "GitHubSource_toJSON this =
     JObj [] [(''repo'', JStr (gh_repo this)), (''branch'', JStr (gh_branch this)),
              (''sourceDir'', JStr (gh_sourceDir this)),
              (''dockerfilePath'', JStr (gh_dockerfilePath this)),
              (''deployOnPush'', JBool (gh_deployOnPush this))]"

text \<open>The VolumeMount constructor reads three members of its argument before it parses:
  a read on \<open>null\<close> or \<open>undefined\<close> throws a \<open>TypeError\<close>. \<open>config.size ?? '1GB'\<close>
  replaces \<open>null\<close> and \<open>undefined\<close>.\<close>

definition VolumeMount_new :: "json \<Rightarrow> error + VolumeMount" where
  "VolumeMount_new config =
     (if config = JUndefined \<or> config = JNull
      then Inl (TypeError ''Cannot read properties of undefined or null'')
      else
        (let sz = get_property config ''size''
         in case parse VolumeMountSchema
                  (JObj [] [(''name'', get_property config ''name''),
                            (''mountPath'', get_property config ''mountPath''),
                            (''size'', if sz = JUndefined \<or> sz = JNull then JStr ''1GB'' else sz)]) of
              Inl e \<Rightarrow> Inl e
            | Inr data \<Rightarrow> Inr \<lparr>vm_name = vm_name data, vm_mountPath = vm_mountPath data,
                                vm_size = vm_size data\<rparr>))"

definition VolumeMount_toJSON :: "VolumeMount \<Rightarrow> json" where
  "VolumeMount_toJSON this =
     JObj [] [(''name'', JStr (vm_name this)), (''mountPath'', JStr (vm_mountPath this)),
              (''size'', JStr (vm_size this))]"

section \<open>Resource aggregates (base/AppPlatformResource.ts, resources/*.ts)\<close>

text \<open>
  \<open>AppPlatformResource\<close> is the abstract base class of Service, Job and Worker: the
  three records extend its record, and the environment-variable operations are defined
  once, on every extension of it. The aggregate constructors take a configuration whose
  primitive members are raw values, validated by a schema, and whose nested entities
  are instances that the constructors keep as they are.
\<close>

record AppPlatformResource =
  res_name :: string
  res_envs :: "EnvironmentVariable list"

datatype Source = ImageSource DockerImage | RepoSource GitHubSource

fun Source_toJSON :: "Source \<Rightarrow> json" where
  "Source_toJSON (ImageSource docker) = DockerImage_toJSON docker"
| "Source_toJSON (RepoSource github) = GitHubSource_toJSON github"

text \<open>The schema of the base constructor: \<open>name\<close> is a non-blank string, \<open>envs\<close> is an
  array of anything and defaults to the empty array.\<close>

definition AppPlatformResourceSchema :: "(string \<times> json list) schema" where
  "AppPlatformResourceSchema path data =
     (case data of
        JObj hidden own \<Rightarrow>
          (let (i1, name) = field (refine non_empty ''Name must be non-empty'' z_string) path data ''name'';
               (i2, envs) = field (z_default (JArr []) (z_array z_any)) path data ''envs''
           in (i1 @ i2, do { a \<leftarrow> name; b \<leftarrow> envs; Some (a, b) }))
      | _ \<Rightarrow> object_type_issue path data)"

text \<open>The array of instances handed to the schema is written with the projections of
  the instances: the schema accepts any element. \<open>config.envs?.slice() || []\<close> copies
  the list.\<close>

definition AppPlatformResource_new :: "json \<Rightarrow> EnvironmentVariable list option \<Rightarrow> error + AppPlatformResource" where
  "AppPlatformResource_new name envs =
     (case parse AppPlatformResourceSchema
             (JObj [] [(''name'', name),
                       (''envs'', case envs of None \<Rightarrow> JUndefined
                                  | Some es \<Rightarrow> JArr (map EnvironmentVariable_toJSON es))]) of
        Inl e \<Rightarrow> Inl e
      | Inr (n, es) \<Rightarrow>
          Inr \<lparr>res_name = n, res_envs = (case envs of Some es \<Rightarrow> es | None \<Rightarrow> [])\<rparr>)"

text \<open>\<open>Array.prototype.findIndex\<close>: the first index whose element satisfies the
  predicate, \<open>-1\<close> when there is none.\<close>

definition findIndex :: "('a \<Rightarrow> bool) \<Rightarrow> 'a list \<Rightarrow> int" where
  "findIndex P xs =
     (case find (\<lambda>i. P (xs ! i)) [0..<length xs] of Some i \<Rightarrow> int i | None \<Rightarrow> - 1)"

text \<open>The operations return their outcome and the resource after the call.\<close>

definition addEnv ::
  "EnvironmentVariable \<Rightarrow> 'a AppPlatformResource_scheme \<Rightarrow> (error + unit) \<times> 'a AppPlatformResource_scheme" where
  "addEnv env this =
     (let existingIndex = findIndex (\<lambda>e. ev_key e = ev_key env) (res_envs this)
      in if existingIndex \<noteq> - 1
         then (Inl (ZodError [ZodIssue custom [Key ''key'']
                      (Message (''Environment variable with key '' @ [CHR 0x22] @ ev_key env
                                @ [CHR 0x22] @ '' already exists''))]),
               this)
         else (Inr (), this\<lparr>res_envs := res_envs this @ [env]\<rparr>))"

definition removeEnv :: "string \<Rightarrow> 'a AppPlatformResource_scheme \<Rightarrow> bool \<times> 'a AppPlatformResource_scheme" where
  "removeEnv key this =
     (let index = findIndex (\<lambda>e. ev_key e = key) (res_envs this)
      in if index \<noteq> - 1
         then (True, this\<lparr>res_envs := take (nat index) (res_envs this)
                                        @ drop (nat index + 1) (res_envs this)\<rparr>)
         else (False, this))"

definition getEnv :: "string \<Rightarrow> 'a AppPlatformResource_scheme \<Rightarrow> EnvironmentVariable option" where
  "getEnv key this = find (\<lambda>e. ev_key e = key) (res_envs this)"

definition listEnvs :: "'a AppPlatformResource_scheme \<Rightarrow> EnvironmentVariable list" where
  "listEnvs this = res_envs this"

subsection \<open>Service\<close>

record ServiceConfig =
  sc_name :: json
  sc_instanceSizeSlug :: json
  sc_instanceCount :: json
  sc_httpPort :: json
  sc_internalPorts :: json
  sc_healthCheck :: "HealthCheck option"
  sc_runCommand :: json
  sc_volumes :: "VolumeMount list option"
  sc_source :: "Source option"
  sc_envs :: "EnvironmentVariable list option"

record Service = AppPlatformResource +
  svc_instanceSizeSlug :: string
  svc_instanceCount :: int
  svc_httpPort :: "int option"
  svc_internalPorts :: "int list option"
  svc_healthCheck :: "HealthCheck option"
  svc_runCommand :: "string option"
  svc_volumes :: "VolumeMount list option"
  svc_source :: "Source option"

definition ServicePrimitives ::
  "(string \<times> int \<times> int option \<times> int list option \<times> string option) schema" where
  "ServicePrimitives path data =
     (case data of
        JObj hidden own \<Rightarrow>
          (let (i1, instanceSizeSlug) = field (z_enum INSTANCE_SIZE_SLUGS) path data ''instanceSizeSlug'';
               (i2, instanceCount) =
                  field (z_min 1 (Message ''Instance count must be a positive integer'') (z_int z_number))
                    path data ''instanceCount'';
               (i3, httpPort) =
                  field (z_optional (z_max 65535 (Message ''Port must be between 1 and 65535'')
                                       (z_min 1 Builtin (z_int z_number)))) path data ''httpPort'';
               (i4, internalPorts) =
                  field (z_optional (z_array (z_max 65535 Builtin (z_min 1 Builtin (z_int z_number)))))
                    path data ''internalPorts'';
               (i5, runCommand) = field (z_optional z_string) path data ''runCommand''
           in (i1 @ i2 @ i3 @ i4 @ i5,
               do { a \<leftarrow> instanceSizeSlug; b \<leftarrow> instanceCount; c \<leftarrow> httpPort; d \<leftarrow> internalPorts;
                    e \<leftarrow> runCommand; Some (a, b, c, d, e) }))
      | _ \<Rightarrow> object_type_issue path data)"

definition Service_new :: "ServiceConfig \<Rightarrow> error + Service" where
  "Service_new config =
     (case AppPlatformResource_new (sc_name config) (sc_envs config) of
        Inl e \<Rightarrow> Inl e
      | Inr base \<Rightarrow>
          (case parse ServicePrimitives
                  (JObj [] [(''instanceSizeSlug'', sc_instanceSizeSlug config),
                            (''instanceCount'', sc_instanceCount config),
                            (''httpPort'', sc_httpPort config),
                            (''internalPorts'', sc_internalPorts config),
                            (''runCommand'', sc_runCommand config)]) of
             Inl e \<Rightarrow> Inl e
           | Inr (instanceSizeSlug, instanceCount, httpPort, internalPorts, runCommand) \<Rightarrow>
               Inr \<lparr>res_name = res_name base, res_envs = res_envs base,
                    svc_instanceSizeSlug = instanceSizeSlug, svc_instanceCount = instanceCount,
                    svc_httpPort = httpPort, svc_internalPorts = internalPorts,
                    svc_healthCheck = sc_healthCheck config, svc_runCommand = runCommand,
                    svc_volumes = sc_volumes config, svc_source = sc_source config\<rparr>))"

definition Service_toJSON :: "Service \<Rightarrow> json" where
  "Service_toJSON this =
     (let json = [(''name'', JStr (res_name this)),
                  (''instanceSizeSlug'', JStr (svc_instanceSizeSlug this)),
                  (''instanceCount'', JNum (svc_instanceCount this)),
                  (''envs'', JArr (map EnvironmentVariable_toJSON (res_envs this)))];
          json = (case svc_httpPort this of
                    Some httpPort \<Rightarrow> obj_set ''httpPort'' (JNum httpPort) json | None \<Rightarrow> json);
          json = (case svc_internalPorts this of
                    Some ports \<Rightarrow> obj_set ''internalPorts'' (JArr (map JNum ports)) json | None \<Rightarrow> json);
          json = (case svc_healthCheck this of
                    Some healthCheck \<Rightarrow> obj_set ''healthCheck'' (HealthCheck_toJSON healthCheck) json
                  | None \<Rightarrow> json);
          json = (case svc_runCommand this of
                    Some runCommand \<Rightarrow> obj_set ''runCommand'' (JStr runCommand) json | None \<Rightarrow> json);
          json = (case svc_volumes this of
                    Some volumes \<Rightarrow>
                      (if length volumes > 0
                       then obj_set ''volumes'' (JArr (map VolumeMount_toJSON volumes)) json else json)
                  | None \<Rightarrow> json);
          json = (case svc_source this of
                    Some source \<Rightarrow> obj_set ''source'' (Source_toJSON source) json | None \<Rightarrow> json)
      in JObj [] json)"

definition Service_toYAML :: "printer \<Rightarrow> pulumi option \<Rightarrow> Service \<Rightarrow> error + string" where
  "Service_toYAML dump backend this = toYAML dump backend (Service_toJSON this)"

subsection \<open>Job\<close>

record JobConfig =
  jc_name :: json
  jc_kind :: json
  jc_runCommand :: json
  jc_instanceSizeSlug :: json
  jc_instanceCount :: json
  jc_source :: "Source option"
  jc_envs :: "EnvironmentVariable list option"

record Job = AppPlatformResource +
  job_kind :: string
  job_runCommand :: string
  job_instanceSizeSlug :: "string option"
  job_instanceCount :: "int option"
  job_source :: "Source option"

definition JobPrimitives :: "(string \<times> string \<times> string option \<times> int option) schema" where
  "JobPrimitives path data =
     (case data of
        JObj hidden own \<Rightarrow>
          (let (i1, kind) = field (z_enum [''PRE_DEPLOY'', ''POST_DEPLOY'']) path data ''kind'';
               (i2, runCommand) = field (refine non_empty ''Run command must be non-empty'' z_string)
                                    path data ''runCommand'';
               (i3, instanceSizeSlug) = field (z_optional (z_enum INSTANCE_SIZE_SLUGS))
                                          path data ''instanceSizeSlug'';
               (i4, instanceCount) = field (z_optional (z_min 1 Builtin (z_int z_number)))
                                       path data ''instanceCount''
           in (i1 @ i2 @ i3 @ i4,
               do { a \<leftarrow> kind; b \<leftarrow> runCommand; c \<leftarrow> instanceSizeSlug; d \<leftarrow> instanceCount;
                    Some (a, b, c, d) }))
      | _ \<Rightarrow> object_type_issue path data)"

definition Job_new :: "JobConfig \<Rightarrow> error + Job" where
  "Job_new config =
     (case AppPlatformResource_new (jc_name config) (jc_envs config) of
        Inl e \<Rightarrow> Inl e
      | Inr base \<Rightarrow>
          (case parse JobPrimitives
                  (JObj [] [(''kind'', jc_kind config), (''runCommand'', jc_runCommand config),
                            (''instanceSizeSlug'', jc_instanceSizeSlug config),
                            (''instanceCount'', jc_instanceCount config)]) of
             Inl e \<Rightarrow> Inl e
           | Inr (kind, runCommand, instanceSizeSlug, instanceCount) \<Rightarrow>
               Inr \<lparr>res_name = res_name base, res_envs = res_envs base,
                    job_kind = kind, job_runCommand = runCommand,
                    job_instanceSizeSlug = instanceSizeSlug, job_instanceCount = instanceCount,
                    job_source = jc_source config\<rparr>))"

definition Job_toJSON :: "Job \<Rightarrow> json" where
  "Job_toJSON this =
     (let json = [(''name'', JStr (res_name this)), (''kind'', JStr (job_kind this)),
                  (''runCommand'', JStr (job_runCommand this)),
                  (''envs'', JArr (map EnvironmentVariable_toJSON (res_envs this)))];
          json = (case job_instanceSizeSlug this of
                    Some slug \<Rightarrow> obj_set ''instanceSizeSlug'' (JStr slug) json | None \<Rightarrow> json);
          json = (case job_instanceCount this of
                    Some n \<Rightarrow> obj_set ''instanceCount'' (JNum n) json | None \<Rightarrow> json);
          json = (case job_source this of
                    Some source \<Rightarrow> obj_set ''source'' (Source_toJSON source) json | None \<Rightarrow> json)
      in JObj [] json)"

definition Job_toYAML :: "printer \<Rightarrow> pulumi option \<Rightarrow> Job \<Rightarrow> error + string" where
  "Job_toYAML dump backend this = toYAML dump backend (Job_toJSON this)"

subsection \<open>Worker\<close>

record WorkerConfig =
  wc_name :: json
  wc_instanceSizeSlug :: json
  wc_instanceCount :: json
  wc_internalPorts :: json
  wc_runCommand :: json
  wc_volumes :: "VolumeMount list option"
  wc_source :: "Source option"
  wc_envs :: "EnvironmentVariable list option"

record Worker = AppPlatformResource +
  wk_instanceSizeSlug :: string
  wk_instanceCount :: int
  wk_internalPorts :: "int list option"
  wk_runCommand :: "string option"
  wk_volumes :: "VolumeMount list option"
  wk_source :: "Source option"

definition WorkerPrimitives :: "(string \<times> int \<times> int list option \<times> string option) schema" where
  "WorkerPrimitives path data =
     (case data of
        JObj hidden own \<Rightarrow>
          (let (i1, instanceSizeSlug) = field (z_enum INSTANCE_SIZE_SLUGS) path data ''instanceSizeSlug'';
               (i2, instanceCount) =
                  field (z_min 1 (Message ''Instance count must be a positive integer'') (z_int z_number))
                    path data ''instanceCount'';
               (i3, internalPorts) =
                  field (z_optional (z_array (z_max 65535 Builtin (z_min 1 Builtin (z_int z_number)))))
                    path data ''internalPorts'';
               (i4, runCommand) = field (z_optional z_string) path data ''runCommand''
           in (i1 @ i2 @ i3 @ i4,
               do { a \<leftarrow> instanceSizeSlug; b \<leftarrow> instanceCount; c \<leftarrow> internalPorts; d \<leftarrow> runCommand;
                    Some (a, b, c, d) }))
      | _ \<Rightarrow> object_type_issue path data)"

definition Worker_new :: "WorkerConfig \<Rightarrow> error + Worker" where
  "Worker_new config =
     (case AppPlatformResource_new (wc_name config) (wc_envs config) of
        Inl e \<Rightarrow> Inl e
      | Inr base \<Rightarrow>
          (case parse WorkerPrimitives
                  (JObj [] [(''instanceSizeSlug'', wc_instanceSizeSlug config),
                            (''instanceCount'', wc_instanceCount config),
                            (''internalPorts'', wc_internalPorts config),
                            (''runCommand'', wc_runCommand config)]) of
             Inl e \<Rightarrow> Inl e
           | Inr (instanceSizeSlug, instanceCount, internalPorts, runCommand) \<Rightarrow>
               Inr \<lparr>res_name = res_name base, res_envs = res_envs base,
                    wk_instanceSizeSlug = instanceSizeSlug, wk_instanceCount = instanceCount,
                    wk_internalPorts = internalPorts, wk_runCommand = runCommand,
                    wk_volumes = wc_volumes config, wk_source = wc_source config\<rparr>))"

definition Worker_toJSON :: "Worker \<Rightarrow> json" where
  "Worker_toJSON this =
     (let json = [(''name'', JStr (res_name this)),
                  (''instanceSizeSlug'', JStr (wk_instanceSizeSlug this)),
                  (''instanceCount'', JNum (wk_instanceCount this)),
                  (''envs'', JArr (map EnvironmentVariable_toJSON (res_envs this)))];
          json = (case wk_internalPorts this of
                    Some ports \<Rightarrow> obj_set ''internalPorts'' (JArr (map JNum ports)) json | None \<Rightarrow> json);
          json = (case wk_runCommand this of
                    Some runCommand \<Rightarrow> obj_set ''runCommand'' (JStr runCommand) json | None \<Rightarrow> json);
          json = (case wk_volumes this of
                    Some volumes \<Rightarrow>
                      (if length volumes > 0
                       then obj_set ''volumes'' (JArr (map VolumeMount_toJSON volumes)) json else json)
                  | None \<Rightarrow> json);
          json = (case wk_source this of
                    Some source \<Rightarrow> obj_set ''source'' (Source_toJSON source) json | None \<Rightarrow> json)
      in JObj [] json)"

definition Worker_toYAML :: "printer \<Rightarrow> pulumi option \<Rightarrow> Worker \<Rightarrow> error + string" where
  "Worker_toYAML dump backend this = toYAML dump backend (Worker_toJSON this)"

text \<open>The minimal Service of the spec: \<open>{name: "rest", instanceSizeSlug: "professional-xs",
  instanceCount: 1}\<close>, every other member absent.\<close>

definition minimal_service_config :: ServiceConfig where
  "minimal_service_config =
     \<lparr>sc_name = JStr ''rest'', sc_instanceSizeSlug = JStr ''professional-xs'',
      sc_instanceCount = JNum 1, sc_httpPort = JUndefined, sc_internalPorts = JUndefined,
      sc_healthCheck = None, sc_runCommand = JUndefined, sc_volumes = None,
      sc_source = None, sc_envs = None\<rparr>"

definition minimal_service :: Service where
  "minimal_service =
     \<lparr>res_name = ''rest'', res_envs = [], svc_instanceSizeSlug = ''professional-xs'',
      svc_instanceCount = 1, svc_httpPort = None, svc_internalPorts = None,
      svc_healthCheck = None, svc_runCommand = None, svc_volumes = None, svc_source = None\<rparr>"

section \<open>Sample inputs\<close>

text \<open>Concrete configurations and resources at which the theorems below are evaluated.\<close>

definition sample_env :: "string \<Rightarrow> EnvironmentVariable" where
  "sample_env k = \<lparr>ev_key = k, ev_value = JStr ''3000'', ev_type = ''GENERAL'', ev_scope = ''RUN_TIME''\<rparr>"

definition sample_job_config :: JobConfig where
  "sample_job_config =
     \<lparr>jc_name = JStr ''migrate'', jc_kind = JStr ''PRE_DEPLOY'',
      jc_runCommand = JStr ''npm run migrate'', jc_instanceSizeSlug = JUndefined,
      jc_instanceCount = JUndefined, jc_source = None, jc_envs = Some [sample_env ''PORT'']\<rparr>"

definition sample_job :: Job where
  "sample_job =
     \<lparr>res_name = ''migrate'', res_envs = [sample_env ''PORT''], job_kind = ''PRE_DEPLOY'',
      job_runCommand = ''npm run migrate'', job_instanceSizeSlug = None,
      job_instanceCount = None, job_source = None\<rparr>"

definition sample_worker_config :: WorkerConfig where
  "sample_worker_config =
     \<lparr>wc_name = JStr ''queue'', wc_instanceSizeSlug = JStr ''basic-xxs'',
      wc_instanceCount = JNum 1, wc_internalPorts = JUndefined, wc_runCommand = JUndefined,
      wc_volumes = None, wc_source = None, wc_envs = Some [sample_env ''PORT'']\<rparr>"

definition sample_worker :: Worker where
  "sample_worker =
     \<lparr>res_name = ''queue'', res_envs = [sample_env ''PORT''], wk_instanceSizeSlug = ''basic-xxs'',
      wk_instanceCount = 1, wk_internalPorts = None, wk_runCommand = None, wk_volumes = None,
      wk_source = None\<rparr>"

text \<open>A projection whose one environment variable holds a deferred value: an object with
  an inherited \<open>then\<close> and an own \<open>isSecret\<close>.\<close>

definition deferred_tree :: json where
  "deferred_tree =
     JObj [] [(''name'', JStr ''rest''),
              (''envs'', JArr [JObj [] [(''key'', JStr ''DATABASE_URL''),
                 (''value'', JObj [(''then'', JFunc ''then'')] [(''isSecret'', JBool False)])]])]"

text \<open>The same projection with a deferred value that is a plain thenable: \<open>isSecret\<close>
  and a function \<open>then\<close> are its own properties.\<close>

definition thenable_tree :: json where
  "thenable_tree =
     JObj [] [(''name'', JStr ''rest''),
              (''envs'', JArr [JObj [] [(''key'', JStr ''DATABASE_URL''),
                 (''value'', JObj [] [(''isSecret'', JBool False), (''then'', JFunc ''then'')])]])]"

section \<open>Properties of the transformers\<close>

lemma obj_set_nonempty: "obj_set k v es \<noteq> []"
  by (induction k v es rule: obj_set.induct) auto

lemma obj_set_keys: "set (map fst (obj_set k v es)) = insert k (set (map fst es))"
  by (induction k v es rule: obj_set.induct) auto

lemma obj_set_fresh: "k \<notin> set (map fst es) \<Longrightarrow> obj_set k v es = es @ [(k, v)]"
  by (induction k v es rule: obj_set.induct) auto

lemma obj_set_all:
  "list_all P es \<Longrightarrow> P (k, v) \<Longrightarrow> list_all P (obj_set k v es)"
  by (induction k v es rule: obj_set.induct) auto

lemma removeEmpty_fold_pruned:
  assumes "\<And>k v. (k, v) \<in> set own \<Longrightarrow> removeEmpty v = JUndefined \<or> pruned (removeEmpty v)"
    and "list_all (\<lambda>(k, v). pruned v) acc"
  shows "list_all (\<lambda>(k, v). pruned v)
           (foldl (\<lambda>result (k, v).
                      let filteredValue = removeEmpty v
                      in if filteredValue \<noteq> JUndefined \<and> filteredValue \<noteq> JNull
                         then obj_set k filteredValue result else result) acc own)"
  using assms
proof (induction own arbitrary: acc)
  case Nil
  then show ?case by simp
next
  case (Cons e own)
  obtain k v where e: "e = (k, v)" by (cases e)
  have step: "list_all (\<lambda>(k, v). pruned v)
                (if removeEmpty v \<noteq> JUndefined \<and> removeEmpty v \<noteq> JNull
                 then obj_set k (removeEmpty v) acc else acc)"
  proof (cases "removeEmpty v \<noteq> JUndefined \<and> removeEmpty v \<noteq> JNull")
    case True
    have "removeEmpty v = JUndefined \<or> pruned (removeEmpty v)"
      using Cons.prems(1) [of k v] e by simp
    with True have "pruned (removeEmpty v)" by simp
    with Cons.prems(2) True show ?thesis by (simp add: obj_set_all)
  next
    case False
    with Cons.prems(2) show ?thesis by auto
  qed
  have rest: "\<And>k v. (k, v) \<in> set own \<Longrightarrow> removeEmpty v = JUndefined \<or> pruned (removeEmpty v)"
  proof -
    fix k' v' assume "(k', v') \<in> set own"
    then have "(k', v') \<in> set (e # own)" by simp
    then show "removeEmpty v' = JUndefined \<or> pruned (removeEmpty v')" by (rule Cons.prems(1))
  qed
  from Cons.IH [OF rest step] show ?case by (simp add: e Let_def)
qed

lemma removeEmpty_pruned: "removeEmpty v = JUndefined \<or> pruned (removeEmpty v)"
proof (induction v rule: removeEmpty.induct)
  case (3 xs)
  have "list_all pruned (filter (\<lambda>item. item \<noteq> JUndefined \<and> item \<noteq> JNull) (map removeEmpty xs))"
    using 3 by (auto simp: list_all_iff)
  then show ?case by (auto simp: Let_def)
next
  case (4 hidden own)
  have "list_all (\<lambda>(k, v). pruned v)
           (foldl (\<lambda>result (k, v).
                      let filteredValue = removeEmpty v
                      in if filteredValue \<noteq> JUndefined \<and> filteredValue \<noteq> JNull
                         then obj_set k filteredValue result else result) [] own)"
    by (rule removeEmpty_fold_pruned) (use 4 in auto)
  then show ?case by (auto simp: Let_def)
qed simp_all

lemma removeEmpty_not_null: "removeEmpty t \<noteq> JNull"
  by (induction t rule: removeEmpty.induct) (auto simp: Let_def)

lemma prune_defined: "prune t \<noteq> Some JUndefined \<and> prune t \<noteq> Some JNull"
  by (induction t rule: prune.induct) (auto simp: Let_def)

lemma removeEmpty_fold_distinct:
  "distinct (map fst acc @ map fst own) \<Longrightarrow>
   foldl (\<lambda>result (k, v).
            let filteredValue = removeEmpty v
            in if filteredValue \<noteq> JUndefined \<and> filteredValue \<noteq> JNull
               then obj_set k filteredValue result else result) acc own
     = acc @ concat (map (\<lambda>(k, v). if removeEmpty v \<noteq> JUndefined then [(k, removeEmpty v)] else []) own)"
proof (induction own arbitrary: acc)
  case Nil
  then show ?case by simp
next
  case (Cons e own)
  obtain k v where e: "e = (k, v)" by (cases e)
  show ?case
  proof (cases "removeEmpty v = JUndefined")
    case True
    have "distinct (map fst acc @ map fst own)" using Cons.prems by (simp add: e)
    from Cons.IH [OF this] True show ?thesis by (simp add: e)
  next
    case False
    from Cons.prems have fresh: "k \<notin> set (map fst acc)" by (auto simp: e)
    then have step: "obj_set k (removeEmpty v) acc = acc @ [(k, removeEmpty v)]"
      by (rule obj_set_fresh)
    have "distinct (map fst (acc @ [(k, removeEmpty v)]) @ map fst own)"
      using Cons.prems by (auto simp: e)
    from Cons.IH [OF this] False show ?thesis
      by (simp add: e step removeEmpty_not_null)
  qed
qed

lemma removeEmpty_JArr:
  "removeEmpty (JArr xs) =
     (let kept = filter (\<lambda>item. item \<noteq> JUndefined) (map removeEmpty xs)
      in if kept = [] then JUndefined else JArr kept)"
proof -
  have "filter (\<lambda>item. item \<noteq> JUndefined \<and> item \<noteq> JNull) (map removeEmpty xs)
          = filter (\<lambda>item. item \<noteq> JUndefined) (map removeEmpty xs)"
    by (rule filter_cong) (auto simp: removeEmpty_not_null)
  then show ?thesis by (simp add: Let_def)
qed

lemma removeEmpty_JObj:
  assumes "distinct (map fst own)"
  shows "removeEmpty (JObj hidden own) =
     (let kept = concat (map (\<lambda>(k, v). if removeEmpty v \<noteq> JUndefined then [(k, removeEmpty v)] else []) own)
      in if kept = [] then JUndefined else JObj [] kept)"
  using removeEmpty_fold_distinct [of "[]" own] assms by (simp add: Let_def)

lemma removeEmpty_prune:
  "distinct_keys t \<Longrightarrow> removeEmpty t = (case prune t of None \<Rightarrow> JUndefined | Some v \<Rightarrow> v)"
proof (induction t rule: removeEmpty.induct)
  case (3 xs)
  have ih: "\<And>x. x \<in> set xs \<Longrightarrow> removeEmpty x = (case prune x of None \<Rightarrow> JUndefined | Some v \<Rightarrow> v)"
    using 3 by (auto simp: list_all_iff)
  have "filter (\<lambda>item. item \<noteq> JUndefined) (map removeEmpty xs)
          = concat (map (\<lambda>x. case prune x of None \<Rightarrow> [] | Some y \<Rightarrow> [y]) xs)"
    using ih
  proof (induction xs)
    case Nil
    then show ?case by simp
  next
    case (Cons x xs)
    then show ?case using prune_defined [of x] by (auto split: option.splits)
  qed
  then show ?case unfolding removeEmpty_JArr by (simp add: Let_def)
next
  case (4 hidden own)
  have d: "distinct (map fst own)" using 4(2) by simp
  have ih: "\<And>k v. (k, v) \<in> set own \<Longrightarrow>
              removeEmpty v = (case prune v of None \<Rightarrow> JUndefined | Some y \<Rightarrow> y)"
    using 4 by (auto simp: list_all_iff)
  have "concat (map (\<lambda>(k, v). if removeEmpty v \<noteq> JUndefined then [(k, removeEmpty v)] else []) own)
          = concat (map (\<lambda>(k, v). case prune v of None \<Rightarrow> [] | Some y \<Rightarrow> [(k, y)]) own)"
    using ih
  proof (induction own)
    case Nil
    then show ?case by simp
  next
    case (Cons e own)
    obtain k v where e: "e = (k, v)" by (cases e)
    have "removeEmpty v = (case prune v of None \<Rightarrow> JUndefined | Some y \<Rightarrow> y)"
      using Cons.prems [of k v] by (simp add: e)
    moreover have "concat (map (\<lambda>(k, v). if removeEmpty v \<noteq> JUndefined then [(k, removeEmpty v)] else []) own)
          = concat (map (\<lambda>(k, v). case prune v of None \<Rightarrow> [] | Some y \<Rightarrow> [(k, y)]) own)"
      by (rule Cons.IH) (use Cons.prems in auto)
    ultimately show ?case using prune_defined [of v] by (auto simp: e split: option.splits)
  qed
  then show ?case unfolding removeEmpty_JObj [OF d] by (simp add: Let_def)
qed simp_all

text \<open>
  C4. The emptiness-pruning stage maps
  \<open>{a: undefined, b: null, c: [], d: {e: null}, f: 0, g: false}\<close> to \<open>{f: 0, g: false}\<close>.
  On every tree (with the distinct member names of JavaScript objects) it computes the
  pruning rule of the spec, with \<open>undefined\<close> for absent: \<open>null\<close> and absent values
  are dropped at every depth; a list keeps exactly the pruned forms of its entries that
  are not absent, in order, and an object exactly the members whose values are not
  absent after pruning; a list or object left empty is absent itself and so is dropped
  from its parent; every boolean, number and string (\<open>false\<close>, \<open>0\<close> and the empty
  string included) is kept as it is wherever it stands. The result is either absent or
  a tree without \<open>null\<close>, absent values, empty lists and empty objects at any depth.
\<close>

theorem removeEmpty_prunes:
  "removeEmpty (JObj [] [(''a'', JUndefined), (''b'', JNull), (''c'', JArr []),
                        (''d'', JObj [] [(''e'', JNull)]), (''f'', JNum 0), (''g'', JBool False)])
     = JObj [] [(''f'', JNum 0), (''g'', JBool False)]
   \<and> (distinct_keys t \<longrightarrow>
        removeEmpty t = (case prune t of None \<Rightarrow> JUndefined | Some pruned_tree \<Rightarrow> pruned_tree))
   \<and> removeEmpty (JArr xs) =
       (let kept = filter (\<lambda>item. item \<noteq> JUndefined) (map removeEmpty xs)
        in if kept = [] then JUndefined else JArr kept)
   \<and> (distinct (map fst own) \<longrightarrow>
        removeEmpty (JObj hidden own) =
          (let kept = concat (map (\<lambda>(k, v). if removeEmpty v \<noteq> JUndefined
                                              then [(k, removeEmpty v)] else []) own)
           in if kept = [] then JUndefined else JObj [] kept))
   \<and> removeEmpty JNull = JUndefined
   \<and> removeEmpty JUndefined = JUndefined
   \<and> (removeEmpty v = JUndefined \<or> pruned (removeEmpty v))
   \<and> removeEmpty (JBool b) = JBool b
   \<and> removeEmpty (JNum n) = JNum n
   \<and> removeEmpty (JStr s) = JStr s"
  using removeEmpty_pruned [of v] removeEmpty_prune [of t] removeEmpty_JArr [of xs]
    removeEmpty_JObj [of own hidden]
  by simp

theorem removeEmpty_prunes_witness:
  "distinct_keys
     (JObj [] [(''ports'', JArr [JNum 8080, JNull, JNum 8081]),
               (''a'', JObj [] [(''b'', JArr [JNum 0, JBool False, JStr []]),
                                (''c'', JArr [JNull, JArr []])]),
               (''e'', JObj [] [(''f'', JUndefined)])])
   \<and> removeEmpty
       (JObj [] [(''ports'', JArr [JNum 8080, JNull, JNum 8081]),
                 (''a'', JObj [] [(''b'', JArr [JNum 0, JBool False, JStr []]),
                                  (''c'', JArr [JNull, JArr []])]),
                 (''e'', JObj [] [(''f'', JUndefined)])])
     = JObj [] [(''ports'', JArr [JNum 8080, JNum 8081]),
                (''a'', JObj [] [(''b'', JArr [JNum 0, JBool False, JStr []])])]
   \<and> prune
       (JObj [] [(''ports'', JArr [JNum 8080, JNull, JNum 8081]),
                 (''a'', JObj [] [(''b'', JArr [JNum 0, JBool False, JStr []]),
                                  (''c'', JArr [JNull, JArr []])]),
                 (''e'', JObj [] [(''f'', JUndefined)])])
     = Some (JObj [] [(''ports'', JArr [JNum 8080, JNum 8081]),
                      (''a'', JObj [] [(''b'', JArr [JNum 0, JBool False, JStr []])])])"
proof -
  let ?t = "JObj [] [(''ports'', JArr [JNum 8080, JNull, JNum 8081]),
                     (''a'', JObj [] [(''b'', JArr [JNum 0, JBool False, JStr []]),
                                      (''c'', JArr [JNull, JArr []])]),
                     (''e'', JObj [] [(''f'', JUndefined)])]"
  have d: "distinct_keys ?t" by simp
  have p: "prune ?t = Some (JObj [] [(''ports'', JArr [JNum 8080, JNum 8081]),
                      (''a'', JObj [] [(''b'', JArr [JNum 0, JBool False, JStr []])])])"
    by (simp add: Let_def)
  show ?thesis
    using d p removeEmpty_prunes [where t = ?t and xs = "[]" and own = "[]" and hidden = "[]"
        and v = JNull and b = True and n = 0 and s = "[]"]
    by simp
qed

lemma not_upper_to_lower: "\<not> is_upper (to_lower c)"
  by (auto simp: is_upper_def to_lower_def Let_def)

lemma camelToSnake_Nil: "camelToSnake [] = []"
  by (simp add: camelToSnake_def)

lemma camelToSnake_Cons:
  "camelToSnake (c # s) =
     (if is_upper c then CHR ''_'' # to_lower c # camelToSnake s else c # camelToSnake s)"
  by (simp add: camelToSnake_def)

lemma camelToSnake_append: "camelToSnake (s @ t) = camelToSnake s @ camelToSnake t"
  by (simp add: camelToSnake_def)

lemma camelToSnake_no_upper: "list_all (\<lambda>c. \<not> is_upper c) (camelToSnake s)"
proof (induction s)
  case Nil
  then show ?case by (simp add: camelToSnake_Nil)
next
  case (Cons c s)
  have "\<not> is_upper (CHR ''_'')" by (simp add: is_upper_def)
  with Cons show ?case by (simp add: camelToSnake_Cons not_upper_to_lower)
qed

lemma camelToSnake_length: "length (camelToSnake s) = length s + length (filter is_upper s)"
  by (induction s) (simp_all add: camelToSnake_Nil camelToSnake_Cons)

lemma fold_obj_set_all:
  assumes "\<And>k v. (k, v) \<in> set own \<Longrightarrow> P (f k, g v)"
    and "list_all P acc"
  shows "list_all P (foldl (\<lambda>result (k, v). obj_set (f k) (g v) result) acc own)"
  using assms
proof (induction own arbitrary: acc)
  case Nil
  then show ?case by simp
next
  case (Cons e own)
  obtain k v where e: "e = (k, v)" by (cases e)
  have "P (f k, g v)" using Cons.prems(1) [of k v] e by simp
  with Cons.prems(2) have step: "list_all P (obj_set (f k) (g v) acc)"
    by (simp add: obj_set_all)
  have rest: "\<And>k v. (k, v) \<in> set own \<Longrightarrow> P (f k, g v)"
  proof -
    fix k' v' assume "(k', v') \<in> set own"
    then have "(k', v') \<in> set (e # own)" by simp
    then show "P (f k', g v')" by (rule Cons.prems(1))
  qed
  from Cons.IH [OF rest step] show ?case by (simp add: e)
qed

lemma fold_obj_set_distinct:
  "distinct (map fst acc @ map (\<lambda>(k, v). f k) own) \<Longrightarrow>
   foldl (\<lambda>result (k, v). obj_set (f k) (g v) result) acc own
     = acc @ map (\<lambda>(k, v). (f k, g v)) own"
proof (induction own arbitrary: acc)
  case Nil
  then show ?case by simp
next
  case (Cons e own)
  obtain k v where e: "e = (k, v)" by (cases e)
  from Cons.prems have fresh: "f k \<notin> set (map fst acc)"
    by (auto simp: e)
  then have step: "obj_set (f k) (g v) acc = acc @ [(f k, g v)]"
    by (rule obj_set_fresh)
  from Cons.prems have "distinct (map fst (acc @ [(f k, g v)]) @ map (\<lambda>(k, v). f k) own)"
    by (auto simp: e)
  from Cons.IH [OF this] show ?case by (simp add: e step)
qed

lemma lower_keys_JObj:
  "lower_keys (JObj hidden own)
     = list_all (\<lambda>(k, v). list_all (\<lambda>c. \<not> is_upper c) k \<and> lower_keys v) own"
  by (induction own) (auto simp: lower_keys_def)

lemma lower_keys_JArr: "lower_keys (JArr xs) = list_all lower_keys xs"
  by (induction xs) (auto simp: lower_keys_def)

lemma transformKeys_lower_keys: "lower_keys (transformKeys t)"
proof (induction t rule: transformKeys.induct)
  case (3 xs)
  then show ?case by (simp add: lower_keys_JArr list_all_iff)
next
  case (4 hidden own)
  have "list_all (\<lambda>(k, v). list_all (\<lambda>c. \<not> is_upper c) k \<and> lower_keys v)
          (foldl (\<lambda>result (k, v). obj_set (camelToSnake k) (transformKeys v) result) [] own)"
  proof (rule fold_obj_set_all)
    fix k v assume "(k, v) \<in> set own"
    then have "lower_keys (transformKeys v)" using 4 by simp
    then show "case (camelToSnake k, transformKeys v) of
                 (k, v) \<Rightarrow> list_all (\<lambda>c. \<not> is_upper c) k \<and> lower_keys v"
      by (simp add: camelToSnake_no_upper)
  qed simp
  then show ?case by (simp add: lower_keys_JObj)
qed (simp_all add: lower_keys_def)

lemma transformKeys_distinct:
  assumes "distinct (map (\<lambda>(k, v). camelToSnake k) own)"
  shows "transformKeys (JObj hidden own)
           = JObj [] (map (\<lambda>(k, v). (camelToSnake k, transformKeys v)) own)"
  using fold_obj_set_distinct [of "[]" camelToSnake own transformKeys] assms by simp

text \<open>
  C5. The key-renaming stage replaces each capital letter of a key by an underscore and
  its lowercase form, one underscore per capital (\<open>instanceSizeSlug\<close> becomes
  \<open>instance_size_slug\<close>, \<open>HTTPPath\<close> becomes \<open>_h_t_t_p_path\<close>), so the renamed key
  grows by one character per capital and no key of the result has a capital letter at
  any depth. It maps over array elements, renames the own properties of an object and
  recurses into their values (position by position when the renamed keys do not
  collide), and returns every other value, a string that looks like a key included,
  as it is.
\<close>

theorem transformKeys_renames:
  "camelToSnake ''instanceSizeSlug'' = ''instance_size_slug''
   \<and> camelToSnake ''HTTPPath'' = ''_h_t_t_p_path''
   \<and> camelToSnake (c # s) =
       (if is_upper c then CHR ''_'' # to_lower c # camelToSnake s else c # camelToSnake s)
   \<and> length (camelToSnake s) = length s + length (filter is_upper s)
   \<and> lower_keys (transformKeys t)
   \<and> transformKeys (JArr xs) = JArr (map transformKeys xs)
   \<and> (distinct (map (\<lambda>(k, v). camelToSnake k) own) \<longrightarrow>
        transformKeys (JObj hidden own)
          = JObj [] (map (\<lambda>(k, v). (camelToSnake k, transformKeys v)) own))
   \<and> transformKeys (JStr str) = JStr str
   \<and> transformKeys (JNum n) = JNum n
   \<and> transformKeys (JBool b) = JBool b
   \<and> transformKeys (JFunc fn) = JFunc fn
   \<and> transformKeys JNull = JNull
   \<and> transformKeys JUndefined = JUndefined"
proof -
  have 1: "camelToSnake ''instanceSizeSlug'' = ''instance_size_slug''"
    by code_simp
  have 2: "camelToSnake ''HTTPPath'' = ''_h_t_t_p_path''"
    by code_simp
  show ?thesis
    using 1 2 camelToSnake_Cons [of c s] camelToSnake_length [of s]
      transformKeys_lower_keys [of t] transformKeys_distinct [of own hidden]
    by simp
qed

theorem transformKeys_renames_witness:
  "distinct (map (\<lambda>(k, v). camelToSnake k)
       [(''httpPath'', JStr ''httpPath''), (''internalPorts'', JArr [JObj [] [(''aB'', JNum 1)]])])
   \<and> transformKeys (JObj [] [(''httpPath'', JStr ''httpPath''),
                             (''internalPorts'', JArr [JObj [] [(''aB'', JNum 1)]])])
       = JObj [] [(''http_path'', JStr ''httpPath''),
                  (''internal_ports'', JArr [JObj [] [(''a_b'', JNum 1)]])]"
proof -
  have k: "camelToSnake ''httpPath'' = ''http_path''"
    "camelToSnake ''internalPorts'' = ''internal_ports''"
    "camelToSnake ''aB'' = ''a_b''"
    by code_simp+
  show ?thesis
    using transformKeys_renames [where hidden = "[]" and c = "CHR ''a''" and s = "[]"
        and t = JNull and xs = "[]" and str = "[]" and n = 0 and b = True and fn = "[]"
        and own = "[(''httpPath'', JStr ''httpPath''),
                    (''internalPorts'', JArr [JObj [] [(''aB'', JNum 1)]])]"]
    by (simp add: k)
qed
section \<open>Properties of the serializer\<close>

lemma foldl_unchanged:
  assumes "\<And>x acc. x \<in> set xs \<Longrightarrow> f acc x = acc"
  shows "foldl f acc xs = acc"
  using assms by (induction xs arbitrary: acc) simp_all

lemma foldl_length_mono:
  assumes "\<And>x acc. x \<in> set xs \<Longrightarrow> length acc \<le> length (f acc x)"
  shows "length acc \<le> length (foldl f acc xs)"
  using assms
proof (induction xs arbitrary: acc)
  case Nil
  then show ?case by simp
next
  case (Cons x xs)
  have "length acc \<le> length (f acc x)" using Cons.prems by simp
  also have "\<dots> \<le> length (foldl f (f acc x) xs)"
    using Cons.IH Cons.prems by simp
  finally show ?case by simp
qed

lemma foldl_length_strict:
  assumes mono: "\<And>x acc. x \<in> set xs \<Longrightarrow> length acc \<le> length (f acc x)"
    and x: "x \<in> set xs" and strict: "\<And>acc. length acc < length (f acc x)"
  shows "length acc < length (foldl f acc xs)"
  using assms
proof (induction xs arbitrary: acc)
  case Nil
  then show ?case by simp
next
  case (Cons y xs)
  show ?case
  proof (cases "y = x")
    case True
    have "length acc < length (f acc y)" using Cons.prems(3) True by simp
    also have "\<dots> \<le> length (foldl f (f acc y) xs)"
      by (rule foldl_length_mono) (use Cons.prems(1) in simp)
    finally show ?thesis by simp
  next
    case False
    with Cons.prems(2) have "x \<in> set xs" by simp
    have "length acc \<le> length (f acc y)" using Cons.prems(1) by simp
    also have "\<dots> < length (foldl f (f acc y) xs)"
      using Cons.IH [OF _ \<open>x \<in> set xs\<close> Cons.prems(3)] Cons.prems(1) by simp
    finally show ?thesis by simp
  qed
qed

lemma extract_deferred_free:
  "deferred_free obj \<Longrightarrow> extractPulumiOutputs obj outputs = outputs"
proof (induction obj outputs rule: extractPulumiOutputs.induct)
  case (1 xs outputs)
  then have "foldl (\<lambda>outputs item. extractPulumiOutputs item outputs) outputs xs = outputs"
    by (intro foldl_unchanged) (auto simp: list_all_iff)
  with 1 show ?case by simp
next
  case (2 hidden own outputs)
  then have "foldl (\<lambda>outputs (k, v). extractPulumiOutputs v outputs) outputs own = outputs"
    by (intro foldl_unchanged) (auto simp: list_all_iff)
  with 2 show ?case by simp
qed simp_all

lemma extract_length_mono:
  "length outputs \<le> length (extractPulumiOutputs obj outputs)"
proof (induction obj outputs rule: extractPulumiOutputs.induct)
  case (1 xs outputs)
  show ?case
  proof (cases "isPulumiOutput (JArr xs)")
    case True then show ?thesis by simp
  next
    case False
    have "length outputs \<le> length (foldl (\<lambda>outputs item. extractPulumiOutputs item outputs) outputs xs)"
      by (rule foldl_length_mono) (use 1 False in auto)
    with False show ?thesis by simp
  qed
next
  case (2 hidden own outputs)
  show ?case
  proof (cases "isPulumiOutput (JObj hidden own)")
    case True then show ?thesis by simp
  next
    case False
    have "length outputs \<le> length (foldl (\<lambda>outputs (k, v). extractPulumiOutputs v outputs) outputs own)"
      by (rule foldl_length_mono) (use 2 False in auto)
    with False show ?thesis by simp
  qed
qed simp_all

lemma extract_deferred:
  "\<not> deferred_free obj \<Longrightarrow> length outputs < length (extractPulumiOutputs obj outputs)"
proof (induction obj outputs rule: extractPulumiOutputs.induct)
  case (1 xs outputs)
  show ?case
  proof (cases "isPulumiOutput (JArr xs)")
    case True then show ?thesis by simp
  next
    case False
    with 1(2) obtain x where x: "x \<in> set xs" "\<not> deferred_free x"
      by (auto simp: list_all_iff)
    have "length outputs < length (foldl (\<lambda>outputs item. extractPulumiOutputs item outputs) outputs xs)"
    proof (rule foldl_length_strict [where x = x])
      show "x \<in> set xs" by (rule x)
      show "\<And>acc. length acc < length (extractPulumiOutputs x acc)"
        using 1(1) [OF False x(1) x(2)] .
    qed (rule extract_length_mono)
    with False show ?thesis by simp
  qed
next
  case (2 hidden own outputs)
  show ?case
  proof (cases "isPulumiOutput (JObj hidden own)")
    case True then show ?thesis by simp
  next
    case False
    with 2(2) obtain k v where kv: "(k, v) \<in> set own" "\<not> deferred_free v"
      by (auto simp: list_all_iff)
    have "length outputs < length (foldl (\<lambda>outputs (k, v). extractPulumiOutputs v outputs) outputs own)"
    proof (rule foldl_length_strict [where x = "(k, v)"])
      show "(k, v) \<in> set own" by (rule kv)
      show "\<And>acc. length acc < length (case (k, v) of (k, v) \<Rightarrow> extractPulumiOutputs v acc)"
        using 2(1) [OF False kv(1) refl kv(2)] by simp
    next
      fix x acc
      show "length acc \<le> length (case x of (k, v) \<Rightarrow> extractPulumiOutputs v acc)"
        by (cases x) (simp add: extract_length_mono)
    qed
    with False show ?thesis by simp
  qed
qed simp_all

lemma extract_empty_iff: "(extractPulumiOutputs obj [] = []) = deferred_free obj"
  using extract_deferred_free [of obj "[]"] extract_deferred [of obj "[]"] by auto

text \<open>
  C9. On a tree that holds no deferred value anywhere, the awaited outcome of the
  asynchronous \<open>toYAML\<close> is the outcome of the synchronous \<open>toYAMLSync\<close>,
  whatever the printer and whether or not a resolution backend is available.
\<close>

theorem toYAML_eq_toYAMLSync:
  assumes "deferred_free obj"
  shows "toYAML dump backend obj = toYAMLSync dump obj"
proof -
  have "extractPulumiOutputs obj [] = []"
    using assms by (rule extract_deferred_free)
  then show ?thesis by (simp add: toYAML_def toYAMLSync_def)
qed

theorem toYAML_eq_toYAMLSync_witness:
  "deferred_free (JObj [] [(''name'', JStr ''rest''), (''httpPort'', JNum 3000),
                           (''envs'', JArr [JObj [] [(''key'', JStr ''PORT''), (''value'', JStr ''3000'')]])])
   \<and> toYAML yaml_dump None
         (JObj [] [(''name'', JStr ''rest''), (''httpPort'', JNum 3000),
                   (''envs'', JArr [JObj [] [(''key'', JStr ''PORT''), (''value'', JStr ''3000'')]])])
       = toYAMLSync yaml_dump
           (JObj [] [(''name'', JStr ''rest''), (''httpPort'', JNum 3000),
                     (''envs'', JArr [JObj [] [(''key'', JStr ''PORT''), (''value'', JStr ''3000'')]])])
   \<and> toYAMLSync yaml_dump
         (JObj [] [(''name'', JStr ''rest''), (''httpPort'', JNum 3000),
                   (''envs'', JArr [JObj [] [(''key'', JStr ''PORT''), (''value'', JStr ''3000'')]])])
       = Inr (unlines [''name: rest'', ''http_port: 3000'', ''envs:'',
                       ''  - key: PORT'', ''    value: '' @ [CHR 0x27] @ ''3000'' @ [CHR 0x27]])"
proof -
  let ?t = "JObj [] [(''name'', JStr ''rest''), (''httpPort'', JNum 3000),
                     (''envs'', JArr [JObj [] [(''key'', JStr ''PORT''), (''value'', JStr ''3000'')]])]"
  have free: "deferred_free ?t" by simp
  have sync: "toYAMLSync yaml_dump ?t
      = Inr (unlines [''name: rest'', ''http_port: 3000'', ''envs:'',
                      ''  - key: PORT'', ''    value: '' @ [CHR 0x27] @ ''3000'' @ [CHR 0x27]])"
    by code_simp
  show ?thesis
    using free sync toYAML_eq_toYAMLSync [OF free, of yaml_dump None] by simp
qed

lemma yaml_dump_text_iff: "(\<exists>text. yaml_dump t = Inr text) \<longleftrightarrow> \<not> has_function t"
  by (auto simp: yaml_dump_def)

lemma yaml_dump_function:
  "has_function t \<Longrightarrow>
   yaml_dump t = Inl (Error ''unacceptable kind of an object to dump [object Function]'')"
  by (auto simp: yaml_dump_def)

text \<open>
  C7 (as the code has it). For a tree that holds a deferred value (an array or object
  with both an \<open>isSecret\<close> and a \<open>then\<close> member) and no resolution backend, the
  asynchronous \<open>toYAML\<close> raises no error of its own: the failed import is caught, and the
  outcome is the outcome of the printer on the pruned and renamed tree in which the
  deferred value is left as it was. With the modelled printer that outcome is YAML
  text exactly when this tree holds no function, and the printer's error when it
  holds one, as it does for a deferred value whose \<open>then\<close> is an own function
  property. The synchronous \<open>toYAMLSync\<close> fails on the same tree with an error instead.
\<close>

theorem toYAML_soft_fail:
  assumes "\<not> deferred_free obj"
  shows "toYAML dump None obj = dump (transformKeys (removeEmpty obj))
         \<and> ((\<exists>text. toYAML yaml_dump None obj = Inr text)
              = (\<not> has_function (transformKeys (removeEmpty obj))))
         \<and> (has_function (transformKeys (removeEmpty obj)) \<longrightarrow>
              toYAML yaml_dump None obj
                = Inl (Error ''unacceptable kind of an object to dump [object Function]''))
         \<and> toYAMLSync dump obj
             = Inl (Error ''Pulumi Outputs found. Use async toYAML() instead to resolve them.'')"
proof -
  have "0 < length (extractPulumiOutputs obj [])"
    using extract_deferred [OF assms, of "[]"] by simp
  then have eq: "toYAML d None obj = d (transformKeys (removeEmpty obj))"
    and sync: "toYAMLSync dump obj
             = Inl (Error ''Pulumi Outputs found. Use async toYAML() instead to resolve them.'')"
    for d
    by (simp_all add: toYAML_def toYAMLSync_def toYAML_try_def importPulumi_def Let_def)
  show ?thesis
    using eq [of dump] sync yaml_dump_text_iff [of "transformKeys (removeEmpty obj)"]
      yaml_dump_function [of "transformKeys (removeEmpty obj)"]
    by (simp add: eq [of yaml_dump])
qed

theorem toYAML_soft_fail_witness:
  "\<not> deferred_free deferred_tree
   \<and> \<not> has_function (transformKeys (removeEmpty deferred_tree))
   \<and> toYAML yaml_dump None deferred_tree
       = Inr (unlines [''name: rest'', ''envs:'', ''  - key: DATABASE_URL'',
                       ''    value:'', ''      is_secret: false''])
   \<and> toYAMLSync yaml_dump deferred_tree
       = Inl (Error ''Pulumi Outputs found. Use async toYAML() instead to resolve them.'')
   \<and> \<not> deferred_free thenable_tree
   \<and> has_function (transformKeys (removeEmpty thenable_tree))
   \<and> toYAML yaml_dump None thenable_tree
       = Inl (Error ''unacceptable kind of an object to dump [object Function]'')"
proof -
  have deferred: "\<not> deferred_free deferred_tree" "\<not> deferred_free thenable_tree"
    by (simp_all add: deferred_tree_def thenable_tree_def)
  have printed: "yaml_dump (transformKeys (removeEmpty deferred_tree))
      = Inr (unlines [''name: rest'', ''envs:'', ''  - key: DATABASE_URL'',
                      ''    value:'', ''      is_secret: false''])"
    by code_simp
  have f: "\<not> has_function (transformKeys (removeEmpty deferred_tree))"
    "has_function (transformKeys (removeEmpty thenable_tree))"
    by code_simp+
  have t1: "toYAML yaml_dump None deferred_tree
       = Inr (unlines [''name: rest'', ''envs:'', ''  - key: DATABASE_URL'',
                       ''    value:'', ''      is_secret: false''])"
    and s1: "toYAMLSync yaml_dump deferred_tree
       = Inl (Error ''Pulumi Outputs found. Use async toYAML() instead to resolve them.'')"
    using toYAML_soft_fail [OF deferred(1), of yaml_dump] printed by simp_all
  have t2: "toYAML yaml_dump None thenable_tree
       = Inl (Error ''unacceptable kind of an object to dump [object Function]'')"
    using toYAML_soft_fail [OF deferred(2), of yaml_dump] f(2) by blast
  show ?thesis
    using deferred f t1 s1 t2 by blast
qed

text \<open>
  C7 as the spec states it fails: on a tree whose deferred value has an own function
  \<open>then\<close>, with no resolution backend, the asynchronous \<open>toYAML\<close> does not return YAML
  text; the printer's error leaves it.
\<close>

theorem toYAML_soft_fail_counterexample:
  "\<not> deferred_free thenable_tree
   \<and> isPulumiOutput (JObj [] [(''isSecret'', JBool False), (''then'', JFunc ''then'')])
   \<and> toYAML yaml_dump None thenable_tree
       = Inl (Error ''unacceptable kind of an object to dump [object Function]'')"
proof -
  have "toYAML yaml_dump None thenable_tree
       = Inl (Error ''unacceptable kind of an object to dump [object Function]'')"
    by code_simp
  then show ?thesis by (simp add: thenable_tree_def)
qed

section \<open>Properties of the schemas and entities\<close>

lemma parse_ok: "parse sch d = Inr v \<longleftrightarrow> sch [] d = ([], Some v)"
  by (auto simp: parse_def split: prod.splits list.splits option.splits)

lemma z_string_ok: "z_string p d = ([], Some s) \<longleftrightarrow> d = JStr s"
  by (cases d) (auto simp: z_string_def)

lemma z_number_ok: "z_number p d = ([], Some n) \<longleftrightarrow> d = JNum n"
  by (cases d) (auto simp: z_number_def)

lemma z_boolean_ok: "z_boolean p d = ([], Some b) \<longleftrightarrow> d = JBool b"
  by (cases d) (auto simp: z_boolean_def)

lemma z_any_ok: "z_any p d = ([], Some v) \<longleftrightarrow> d = v"
  by (auto simp: z_any_def)

lemma z_enum_ok: "z_enum opts p d = ([], Some s) \<longleftrightarrow> d = JStr s \<and> s \<in> set opts"
  by (cases d) (auto simp: z_enum_def)

lemma check_ok: "check c m P inner p d = ([], Some v) \<longleftrightarrow> inner p d = ([], Some v) \<and> P v"
  by (auto simp: check_def split: prod.splits option.splits)

lemma refine_ok: "refine P m inner p d = ([], Some v) \<longleftrightarrow> inner p d = ([], Some v) \<and> P v"
  by (simp add: refine_def check_ok)

lemma z_int_ok: "z_int inner p d = ([], Some v) \<longleftrightarrow> inner p d = ([], Some v)"
  by (simp add: z_int_def check_ok)

lemma z_min_ok: "z_min m msg inner p d = ([], Some v) \<longleftrightarrow> inner p d = ([], Some v) \<and> m \<le> v"
  by (simp add: z_min_def check_ok)

lemma z_max_ok: "z_max m msg inner p d = ([], Some v) \<longleftrightarrow> inner p d = ([], Some v) \<and> v \<le> m"
  by (simp add: z_max_def check_ok)

lemma z_optional_ok:
  "z_optional inner p d = ([], Some r) \<longleftrightarrow>
     (if d = JUndefined then r = None else (\<exists>v. r = Some v \<and> inner p d = ([], Some v)))"
  by (auto simp: z_optional_def split: prod.splits)

lemma z_default_ok:
  "z_default dflt inner p d = ([], Some v) \<longleftrightarrow>
     inner p (if d = JUndefined then dflt else d) = ([], Some v)"
  by (simp add: z_default_def)

lemmas schema_ok = z_string_ok z_number_ok z_boolean_ok z_any_ok z_enum_ok check_ok refine_ok
  z_int_ok z_min_ok z_max_ok z_optional_ok z_default_ok


lemma pair_ok: "r = ([], Some v) \<longleftrightarrow> fst r = [] \<and> snd r = Some v"
  by (cases r) auto

lemma bind_Some_iff: "Option.bind x f = Some e \<longleftrightarrow> (\<exists>a. x = Some a \<and> f a = Some e)"
  by (cases x) auto

lemma EnvironmentVariableSchema_fields:
  "EnvironmentVariableSchema p (JObj hidden own) = ([], Some e) \<longleftrightarrow>
     field (refine non_empty ''Key must be non-empty'' z_string) p (JObj hidden own) ''key''
       = ([], Some (ev_key e))
     \<and> field (refine (\<lambda>val. val \<noteq> JUndefined \<and> val \<noteq> JNull) ''Value is required'' z_any)
         p (JObj hidden own) ''value'' = ([], Some (ev_value e))
     \<and> field (z_default (JStr ''GENERAL'') EnvVarType) p (JObj hidden own) ''type''
         = ([], Some (ev_type e))
     \<and> field (z_default (JStr ''RUN_TIME'') EnvVarScope) p (JObj hidden own) ''scope''
         = ([], Some (ev_scope e))"
  unfolding EnvironmentVariableSchema_def
  by (cases e) (auto simp: Let_def case_prod_beta pair_ok bind_Some_iff)

lemma parse_fail:
  "sch [] d = (issues, r) \<Longrightarrow> issues \<noteq> [] \<Longrightarrow> parse sch d = Inl (ZodError issues)"
  by (cases issues) (auto simp: parse_def)

lemma non_empty_Nil: "\<not> non_empty []"
  by (simp add: non_empty_def trim_def)

lemma non_empty_trim: "non_empty s \<longleftrightarrow> trim s \<noteq> []"
  by (simp add: non_empty_def)

lemma EnvironmentVariableSchema_object:
  "EnvironmentVariableSchema p cfg = ([], Some e) \<Longrightarrow> \<exists>hidden own. cfg = JObj hidden own"
  by (cases cfg) (simp_all add: EnvironmentVariableSchema_def object_type_issue_def)

lemma EnvironmentVariable_roundtrip:
  assumes "EnvironmentVariable_new cfg = Inr e"
  shows "EnvironmentVariable_new (EnvironmentVariable_toJSON e) = Inr e"
proof -
  from assms have ok: "EnvironmentVariableSchema [] cfg = ([], Some e)"
    by (auto simp: EnvironmentVariable_new_def parse_ok split: sum.splits)
  then obtain hidden own where cfg: "cfg = JObj hidden own"
    using EnvironmentVariableSchema_object by blast
  from ok [unfolded cfg EnvironmentVariableSchema_fields]
  have valid: "non_empty (ev_key e)" "ev_value e \<noteq> JUndefined" "ev_value e \<noteq> JNull"
    "ev_type e \<in> set [''GENERAL'', ''SECRET'']"
    "ev_scope e \<in> set [''RUN_TIME'', ''BUILD_TIME'', ''DEPLOY_TIME'']"
    by (auto simp: field_def schema_ok EnvVarType_def EnvVarScope_def split: if_splits)
  have "EnvironmentVariableSchema [] (EnvironmentVariable_toJSON e) = ([], Some e)"
    unfolding EnvironmentVariable_toJSON_def EnvironmentVariableSchema_fields
    using valid by (simp add: field_def schema_ok EnvVarType_def EnvVarScope_def)
  then show ?thesis
    by (simp add: EnvironmentVariable_new_def parse_ok [THEN iffD2])
qed


lemma HealthCheckSchema_fields:
  "HealthCheckSchema p (JObj hidden own) = ([], Some e) \<longleftrightarrow>
     field (refine non_empty ''HTTP path must be non-empty'' z_string) p (JObj hidden own) ''httpPath''
       = ([], Some (hc_httpPath e))
     \<and> field (z_max 65535 (Message ''Port must be between 1 and 65535'')
                (z_min 1 Builtin (z_int z_number))) p (JObj hidden own) ''port''
         = ([], Some (hc_port e))
     \<and> field (z_default (JNum 0) (z_min 0 Builtin (z_int z_number))) p (JObj hidden own)
           ''initialDelaySeconds'' = ([], Some (hc_initialDelaySeconds e))
     \<and> field (z_default (JNum 10) (z_min 1 Builtin (z_int z_number))) p (JObj hidden own)
           ''periodSeconds'' = ([], Some (hc_periodSeconds e))
     \<and> field (z_default (JNum 1) (z_min 1 Builtin (z_int z_number))) p (JObj hidden own)
           ''timeoutSeconds'' = ([], Some (hc_timeoutSeconds e))
     \<and> field (z_default (JNum 1) (z_min 1 Builtin (z_int z_number))) p (JObj hidden own)
           ''successThreshold'' = ([], Some (hc_successThreshold e))
     \<and> field (z_default (JNum 3) (z_min 1 Builtin (z_int z_number))) p (JObj hidden own)
           ''failureThreshold'' = ([], Some (hc_failureThreshold e))"
  unfolding HealthCheckSchema_def
  by (cases e) (auto simp: Let_def case_prod_beta pair_ok bind_Some_iff)

lemma HealthCheckSchema_object:
  "HealthCheckSchema p cfg = ([], Some e) \<Longrightarrow> \<exists>hidden own. cfg = JObj hidden own"
  by (cases cfg) (simp_all add: HealthCheckSchema_def object_type_issue_def)

lemma HealthCheck_roundtrip:
  assumes "HealthCheck_new cfg = Inr e"
  shows "HealthCheck_new (HealthCheck_toJSON e) = Inr e"
proof -
  from assms have ok: "HealthCheckSchema [] cfg = ([], Some e)"
    by (auto simp: HealthCheck_new_def parse_ok split: sum.splits)
  then obtain hidden own where cfg: "cfg = JObj hidden own"
    using HealthCheckSchema_object by blast
  from ok [unfolded cfg HealthCheckSchema_fields]
  have valid: "non_empty (hc_httpPath e)" "1 \<le> hc_port e" "hc_port e \<le> 65535"
    "0 \<le> hc_initialDelaySeconds e" "1 \<le> hc_periodSeconds e" "1 \<le> hc_timeoutSeconds e"
    "1 \<le> hc_successThreshold e" "1 \<le> hc_failureThreshold e"
    by (auto simp: field_def schema_ok split: if_splits)
  have "HealthCheckSchema [] (HealthCheck_toJSON e) = ([], Some e)"
    unfolding HealthCheck_toJSON_def HealthCheckSchema_fields
    using valid by (simp add: field_def schema_ok)
  then show ?thesis
    by (simp add: HealthCheck_new_def parse_ok [THEN iffD2])
qed

lemma GitHubSourceSchema_fields:
  "GitHubSourceSchema p (JObj hidden own) = ([], Some e) \<longleftrightarrow>
     field (check invalid_string
              (Message (''Must be in format '' @ [CHR 0x22] @ ''owner/repo'' @ [CHR 0x22]))
              GITHUB_REPO_PATTERN z_string) p (JObj hidden own) ''repo'' = ([], Some (gh_repo e))
     \<and> field (refine non_empty ''Branch must be non-empty'' z_string) p (JObj hidden own) ''branch''
         = ([], Some (gh_branch e))
     \<and> field (z_default (JStr ''/'') z_string) p (JObj hidden own) ''sourceDir''
         = ([], Some (gh_sourceDir e))
     \<and> field (z_default (JStr ''Dockerfile'')
                (refine non_empty ''Dockerfile path must be non-empty'' z_string))
           p (JObj hidden own) ''dockerfilePath'' = ([], Some (gh_dockerfilePath e))
     \<and> field (z_default (JBool False) z_boolean) p (JObj hidden own) ''deployOnPush''
         = ([], Some (gh_deployOnPush e))"
  unfolding GitHubSourceSchema_def
  by (cases e) (auto simp: Let_def case_prod_beta pair_ok bind_Some_iff)

lemma GitHubSourceSchema_object:
  "GitHubSourceSchema p cfg = ([], Some e) \<Longrightarrow> \<exists>hidden own. cfg = JObj hidden own"
  by (cases cfg) (simp_all add: GitHubSourceSchema_def object_type_issue_def)

lemma GitHubSource_roundtrip:
  assumes "GitHubSource_new cfg = Inr e"
  shows "GitHubSource_new (GitHubSource_toJSON e) = Inr e"
proof -
  from assms have ok: "GitHubSourceSchema [] cfg = ([], Some e)"
    by (auto simp: GitHubSource_new_def parse_ok split: sum.splits)
  then obtain hidden own where cfg: "cfg = JObj hidden own"
    using GitHubSourceSchema_object by blast
  from ok [unfolded cfg GitHubSourceSchema_fields]
  have valid: "GITHUB_REPO_PATTERN (gh_repo e)" "non_empty (gh_branch e)"
    "non_empty (gh_dockerfilePath e)"
    by (auto simp: field_def schema_ok non_empty_Nil split: if_splits)
  have "GitHubSourceSchema [] (GitHubSource_toJSON e) = ([], Some e)"
    unfolding GitHubSource_toJSON_def GitHubSourceSchema_fields
    using valid by (simp add: field_def schema_ok)
  then show ?thesis
    by (simp add: GitHubSource_new_def parse_ok [THEN iffD2])
qed

lemma VolumeMountSchema_fields:
  "VolumeMountSchema p (JObj hidden own) = ([], Some e) \<longleftrightarrow>
     field (refine non_empty ''Name must be non-empty'' z_string) p (JObj hidden own) ''name''
       = ([], Some (vm_name e))
     \<and> field (check invalid_string (Message ''Must be an absolute path (starting with /)'')
                (\<lambda>s. take 1 s = ''/'') z_string) p (JObj hidden own) ''mountPath''
         = ([], Some (vm_mountPath e))
     \<and> field (z_default (JStr ''1GB'')
                (check too_small (Message ''Size must be non-empty'') (\<lambda>s. 1 \<le> length s) z_string))
           p (JObj hidden own) ''size'' = ([], Some (vm_size e))"
  unfolding VolumeMountSchema_def
  by (cases e) (auto simp: Let_def case_prod_beta pair_ok bind_Some_iff)

lemma VolumeMount_roundtrip:
  assumes "VolumeMount_new cfg = Inr e"
  shows "VolumeMount_new (VolumeMount_toJSON e) = Inr e"
proof -
  define obj where "obj = [(''name'', get_property cfg ''name''),
      (''mountPath'', get_property cfg ''mountPath''),
      (''size'', if get_property cfg ''size'' = JUndefined \<or> get_property cfg ''size'' = JNull
                 then JStr ''1GB'' else get_property cfg ''size'')]"
  have "VolumeMount_new cfg =
          (if cfg = JUndefined \<or> cfg = JNull
           then Inl (TypeError ''Cannot read properties of undefined or null'')
           else case parse VolumeMountSchema (JObj [] obj) of
                  Inl e \<Rightarrow> Inl e
                | Inr data \<Rightarrow> Inr \<lparr>vm_name = vm_name data, vm_mountPath = vm_mountPath data,
                                    vm_size = vm_size data\<rparr>)"
    by (simp add: VolumeMount_new_def obj_def Let_def)
  with assms have ok: "VolumeMountSchema [] (JObj [] obj) = ([], Some e)"
    by (auto simp: parse_ok split: sum.splits if_splits)
  from ok [unfolded VolumeMountSchema_fields]
  have valid: "non_empty (vm_name e)" "take 1 (vm_mountPath e) = ''/''" "1 \<le> length (vm_size e)"
    by (auto simp: field_def schema_ok split: if_splits)
  have "VolumeMountSchema []
          (JObj [] [(''name'', JStr (vm_name e)), (''mountPath'', JStr (vm_mountPath e)),
                    (''size'', JStr (vm_size e))]) = ([], Some e)"
    unfolding VolumeMountSchema_fields
    using valid by (simp add: field_def schema_ok)
  then show ?thesis
    by (simp add: VolumeMount_new_def VolumeMount_toJSON_def Let_def parse_ok [THEN iffD2])
qed

lemma DockerImageObject_fields:
  "DockerImageObject p (JObj hidden own) = ([], Some e) \<longleftrightarrow>
     field DockerRegistryType p (JObj hidden own) ''registryType'' = ([], Some (di_registryType e))
     \<and> field (z_optional (refine non_empty ''Registry must be non-empty when specified'' z_string))
           p (JObj hidden own) ''registry'' = ([], Some (di_registry e))
     \<and> field (refine non_empty ''Repository must be non-empty'' z_string) p (JObj hidden own)
           ''repository'' = ([], Some (di_repository e))
     \<and> field (refine non_empty ''Tag must be non-empty'' z_string) p (JObj hidden own) ''tag''
         = ([], Some (di_tag e))"
  unfolding DockerImageObject_def
  by (cases e) (auto simp: Let_def case_prod_beta pair_ok bind_Some_iff)

lemma DockerImageSchema_ok:
  "DockerImageSchema p cfg = ([], Some e) \<longleftrightarrow>
     DockerImageObject p cfg = ([], Some e) \<and> docr_has_registry e"
  by (auto simp: DockerImageSchema_def split: prod.splits option.splits if_splits)

lemma DockerImageObject_object:
  "DockerImageObject p cfg = ([], Some e) \<Longrightarrow> \<exists>hidden own. cfg = JObj hidden own"
  by (cases cfg) (simp_all add: DockerImageObject_def object_type_issue_def)

lemma DockerImage_roundtrip:
  assumes "DockerImage_new cfg = Inr e"
  shows "DockerImage_new (DockerImage_toJSON e) = Inr e"
proof -
  from assms have "DockerImageSchema [] cfg = ([], Some e)"
    by (auto simp: DockerImage_new_def parse_ok split: sum.splits)
  then have ok: "DockerImageObject [] cfg = ([], Some e)" and docr: "docr_has_registry e"
    by (simp_all add: DockerImageSchema_ok)
  then obtain hidden own where cfg: "cfg = JObj hidden own"
    using DockerImageObject_object by blast
  from ok [unfolded cfg DockerImageObject_fields]
  have valid: "di_registryType e \<in> set [''DOCKER_HUB'', ''DOCR'', ''GHCR'']"
    "non_empty (di_repository e)" "non_empty (di_tag e)"
    "di_registry e = None \<or> (\<exists>r. di_registry e = Some r \<and> non_empty r)"
    by (auto simp: field_def schema_ok DockerRegistryType_def split: if_splits)
  have "DockerImageObject [] (DockerImage_toJSON e) = ([], Some e)"
  proof (cases "di_registry e")
    case None
    then show ?thesis
      unfolding DockerImage_toJSON_def Let_def
      using valid by (simp add: DockerImageObject_fields field_def schema_ok DockerRegistryType_def)
  next
    case (Some r)
    with valid(4) have r: "non_empty r" by simp
    then have "r \<noteq> []" using non_empty_Nil by auto
    with Some r show ?thesis
      unfolding DockerImage_toJSON_def Let_def
      using valid(1-3)
      by (simp add: DockerImageObject_fields field_def schema_ok DockerRegistryType_def)
  qed
  with docr have "DockerImageSchema [] (DockerImage_toJSON e) = ([], Some e)"
    by (simp add: DockerImageSchema_ok)
  then show ?thesis
    by (simp add: DockerImage_new_def parse_ok [THEN iffD2])
qed

lemma parse_issues:
  "fst (sch [] d) \<noteq> [] \<Longrightarrow> parse sch d = Inl (ZodError (fst (sch [] d)))"
  by (cases "sch [] d") (auto simp: parse_def split: list.splits)

lemma EnvironmentVariableSchema_issues:
  "fst (EnvironmentVariableSchema p (JObj hidden own)) =
     fst (field (refine non_empty ''Key must be non-empty'' z_string) p (JObj hidden own) ''key'')
     @ fst (field (refine (\<lambda>val. val \<noteq> JUndefined \<and> val \<noteq> JNull) ''Value is required'' z_any)
              p (JObj hidden own) ''value'')
     @ fst (field (z_default (JStr ''GENERAL'') EnvVarType) p (JObj hidden own) ''type'')
     @ fst (field (z_default (JStr ''RUN_TIME'') EnvVarScope) p (JObj hidden own) ''scope'')"
  by (simp add: EnvironmentVariableSchema_def Let_def case_prod_beta)

lemma value_required_issue:
  assumes "d = JNull \<or> d = JUndefined"
  shows "fst (refine (\<lambda>val. val \<noteq> JUndefined \<and> val \<noteq> JNull) ''Value is required'' z_any p d)
           = [ZodIssue custom p (Message ''Value is required'')]"
  using assms by (auto simp: refine_def check_def z_any_def)

lemma EnvironmentVariable_null_value:
  assumes "get_property (JObj hidden own) ''value'' = JNull
           \<or> get_property (JObj hidden own) ''value'' = JUndefined"
  shows "\<exists>issues. EnvironmentVariable_new (JObj hidden own) = Inl (ZodError issues)
           \<and> ZodIssue custom [Key ''value''] (Message ''Value is required'') \<in> set issues"
proof -
  let ?issues = "fst (EnvironmentVariableSchema [] (JObj hidden own))"
  have v: "fst (field (refine (\<lambda>val. val \<noteq> JUndefined \<and> val \<noteq> JNull) ''Value is required'' z_any)
              [] (JObj hidden own) ''value'')
            = [ZodIssue custom [Key ''value''] (Message ''Value is required'')]"
    unfolding field_def using value_required_issue [OF assms, of "[] @ [Key ''value'']"] by simp
  have mem: "ZodIssue custom [Key ''value''] (Message ''Value is required'') \<in> set ?issues"
    unfolding EnvironmentVariableSchema_issues v by simp
  then have "?issues \<noteq> []" by auto
  then have "parse EnvironmentVariableSchema (JObj hidden own) = Inl (ZodError ?issues)"
    by (rule parse_issues)
  then have "EnvironmentVariable_new (JObj hidden own) = Inl (ZodError ?issues)"
    by (simp add: EnvironmentVariable_new_def)
  with mem show ?thesis by blast
qed

lemma EnvironmentVariable_null_like_undefined:
  assumes "get_property (JObj h1 o1) ''value'' = JNull"
    and "get_property (JObj h2 o2) ''value'' = JUndefined"
    and "get_property (JObj h1 o1) ''key'' = get_property (JObj h2 o2) ''key''"
    and "get_property (JObj h1 o1) ''type'' = get_property (JObj h2 o2) ''type''"
    and "get_property (JObj h1 o1) ''scope'' = get_property (JObj h2 o2) ''scope''"
  shows "EnvironmentVariable_new (JObj h1 o1) = EnvironmentVariable_new (JObj h2 o2)"
proof -
  have v1: "fst (field (refine (\<lambda>val. val \<noteq> JUndefined \<and> val \<noteq> JNull) ''Value is required'' z_any)
              [] (JObj h1 o1) ''value'')
            = [ZodIssue custom [Key ''value''] (Message ''Value is required'')]"
    unfolding field_def using value_required_issue [of "get_property (JObj h1 o1) ''value''"
        "[] @ [Key ''value'']"] assms(1) by simp
  have v2: "fst (field (refine (\<lambda>val. val \<noteq> JUndefined \<and> val \<noteq> JNull) ''Value is required'' z_any)
              [] (JObj h2 o2) ''value'')
            = [ZodIssue custom [Key ''value''] (Message ''Value is required'')]"
    unfolding field_def using value_required_issue [of "get_property (JObj h2 o2) ''value''"
        "[] @ [Key ''value'']"] assms(2) by simp
  have same: "fst (EnvironmentVariableSchema [] (JObj h1 o1))
                = fst (EnvironmentVariableSchema [] (JObj h2 o2))"
    unfolding EnvironmentVariableSchema_issues v1 v2
    using assms(3-5) by (simp add: field_def del: get_property.simps)
  have ne: "fst (EnvironmentVariableSchema [] (JObj h1 o1)) \<noteq> []"
    unfolding EnvironmentVariableSchema_issues v1 by simp
  with same have ne2: "fst (EnvironmentVariableSchema [] (JObj h2 o2)) \<noteq> []" by simp
  have p1: "parse EnvironmentVariableSchema (JObj h1 o1)
              = Inl (ZodError (fst (EnvironmentVariableSchema [] (JObj h1 o1))))"
    using ne by (rule parse_issues)
  have p2: "parse EnvironmentVariableSchema (JObj h2 o2)
              = Inl (ZodError (fst (EnvironmentVariableSchema [] (JObj h2 o2))))"
    using ne2 by (rule parse_issues)
  show ?thesis
    by (simp add: EnvironmentVariable_new_def p1 p2 same)
qed

lemma EnvironmentVariable_accepts:
  assumes "get_property (JObj hidden own) ''key'' = JStr k" and "non_empty k"
    and "get_property (JObj hidden own) ''value'' = v" and "v \<noteq> JNull" and "v \<noteq> JUndefined"
    and "(get_property (JObj hidden own) ''type'' = JUndefined \<and> t = ''GENERAL'')
         \<or> (get_property (JObj hidden own) ''type'' = JStr t \<and> t \<in> set [''GENERAL'', ''SECRET''])"
    and "(get_property (JObj hidden own) ''scope'' = JUndefined \<and> s = ''RUN_TIME'')
         \<or> (get_property (JObj hidden own) ''scope'' = JStr s
             \<and> s \<in> set [''RUN_TIME'', ''BUILD_TIME'', ''DEPLOY_TIME''])"
  shows "EnvironmentVariable_new (JObj hidden own)
           = Inr \<lparr>ev_key = k, ev_value = v, ev_type = t, ev_scope = s\<rparr>"
proof -
  have "EnvironmentVariableSchema [] (JObj hidden own)
          = ([], Some \<lparr>ev_key = k, ev_value = v, ev_type = t, ev_scope = s\<rparr>)"
    unfolding EnvironmentVariableSchema_fields
    using assms
    by (auto simp: field_def schema_ok EnvVarType_def EnvVarScope_def simp del: get_property.simps)
  then show ?thesis
    by (simp add: EnvironmentVariable_new_def parse_ok [THEN iffD2])
qed

lemma DockerImageObject_result:
  "DockerImageObject p (JObj hidden own) =
     (fst (field DockerRegistryType p (JObj hidden own) ''registryType'')
      @ fst (field (z_optional (refine non_empty ''Registry must be non-empty when specified'' z_string))
               p (JObj hidden own) ''registry'')
      @ fst (field (refine non_empty ''Repository must be non-empty'' z_string) p (JObj hidden own)
               ''repository'')
      @ fst (field (refine non_empty ''Tag must be non-empty'' z_string) p (JObj hidden own) ''tag''),
      do { a \<leftarrow> snd (field DockerRegistryType p (JObj hidden own) ''registryType'');
           b \<leftarrow> snd (field (z_optional (refine non_empty ''Registry must be non-empty when specified''
                                          z_string)) p (JObj hidden own) ''registry'');
           c \<leftarrow> snd (field (refine non_empty ''Repository must be non-empty'' z_string)
                        p (JObj hidden own) ''repository'');
           d \<leftarrow> snd (field (refine non_empty ''Tag must be non-empty'' z_string)
                        p (JObj hidden own) ''tag'');
           Some \<lparr>di_registryType = a, di_registry = b, di_repository = c, di_tag = d\<rparr> })"
  by (simp add: DockerImageObject_def Let_def case_prod_beta)

lemma refine_string_result:
  "refine P m z_string p (JStr s) = (if P s then [] else [ZodIssue custom p (Message m)], Some s)"
  by (simp add: refine_def check_def z_string_def)

lemma registry_field_result:
  assumes "d = JUndefined \<or> (\<exists>r. d = JStr r \<and> trim r = [])"
  shows "list_all (\<lambda>i. issue_path i = p)
           (fst (z_optional (refine non_empty ''Registry must be non-empty when specified'' z_string) p d))
         \<and> (\<exists>reg. snd (z_optional (refine non_empty ''Registry must be non-empty when specified''
                                     z_string) p d) = Some reg
                  \<and> (reg = None \<or> (\<exists>r. reg = Some r \<and> trim r = [])))"
  using assms
  by (auto simp: z_optional_def refine_string_result non_empty_trim)

lemma DockerImage_docr_fails:
  assumes rt: "get_property (JObj hidden own) ''registryType'' = JStr ''DOCR''"
    and reg: "get_property (JObj hidden own) ''registry'' = JUndefined
              \<or> (\<exists>r. get_property (JObj hidden own) ''registry'' = JStr r \<and> trim r = [])"
    and repo: "get_property (JObj hidden own) ''repository'' = JStr repository"
    and tag: "get_property (JObj hidden own) ''tag'' = JStr tag"
  shows "\<exists>issues. DockerImage_new (JObj hidden own) = Inl (ZodError issues)
           \<and> list_ex (\<lambda>i. issue_path i = [Key ''registry'']) issues
           \<and> (if non_empty repository \<and> non_empty tag
               then list_all (\<lambda>i. issue_path i = [Key ''registry'']) issues else True)"
proof -
  let ?cfg = "JObj hidden own"
  let ?docr = "ZodIssue custom [Key ''registry'']
                 (Message ''DOCR registry type requires non-empty registry field'')"
  let ?i2 = "fst (field (z_optional (refine non_empty ''Registry must be non-empty when specified''
                                       z_string)) [] ?cfg ''registry'')"
  let ?i3 = "if non_empty repository then []
             else [ZodIssue custom [Key ''repository''] (Message ''Repository must be non-empty'')]"
  let ?i4 = "if non_empty tag then []
             else [ZodIssue custom [Key ''tag''] (Message ''Tag must be non-empty'')]"
  from registry_field_result [OF reg, of "[Key ''registry'']"]
  obtain r where i2: "list_all (\<lambda>i. issue_path i = [Key ''registry'']) ?i2"
    and r: "snd (field (z_optional (refine non_empty ''Registry must be non-empty when specified''
                                      z_string)) [] ?cfg ''registry'') = Some r"
    and blank: "r = None \<or> (\<exists>s. r = Some s \<and> trim s = [])"
    by (auto simp: field_def simp del: get_property.simps)
  let ?v = "\<lparr>di_registryType = ''DOCR'', di_registry = r, di_repository = repository, di_tag = tag\<rparr>"
  have obj: "DockerImageObject [] ?cfg = (?i2 @ ?i3 @ ?i4, Some ?v)"
    unfolding DockerImageObject_result
    using rt repo tag r
    by (simp add: field_def DockerRegistryType_def z_enum_def refine_string_result
          del: get_property.simps)
  have "\<not> docr_has_registry ?v"
    using blank by (auto simp: docr_has_registry_def)
  with obj have sch: "DockerImageSchema [] ?cfg = (?i2 @ ?i3 @ ?i4 @ [?docr], Some ?v)"
    by (simp add: DockerImageSchema_def)
  then have "parse DockerImageSchema ?cfg = Inl (ZodError (?i2 @ ?i3 @ ?i4 @ [?docr]))"
    using parse_fail [of DockerImageSchema ?cfg "?i2 @ ?i3 @ ?i4 @ [?docr]" "Some ?v"] by simp
  then have new: "DockerImage_new ?cfg = Inl (ZodError (?i2 @ ?i3 @ ?i4 @ [?docr]))"
    by (simp add: DockerImage_new_def)
  have ex: "list_ex (\<lambda>i. issue_path i = [Key ''registry'']) (?i2 @ ?i3 @ ?i4 @ [?docr])"
    by (simp add: list_ex_iff)
  have all: "non_empty repository \<and> non_empty tag \<Longrightarrow>
      list_all (\<lambda>i. issue_path i = [Key ''registry'']) (?i2 @ ?i3 @ ?i4 @ [?docr])"
    using i2 by simp
  show ?thesis
    using new ex all by (intro exI [of _ "?i2 @ ?i3 @ ?i4 @ [?docr]"]) simp
qed

lemma DockerImage_without_registry:
  assumes "get_property (JObj hidden own) ''registryType'' = JStr t"
    and "t = ''DOCKER_HUB'' \<or> t = ''GHCR''"
    and "get_property (JObj hidden own) ''registry'' = JUndefined"
    and "get_property (JObj hidden own) ''repository'' = JStr repository" and "non_empty repository"
    and "get_property (JObj hidden own) ''tag'' = JStr tag" and "non_empty tag"
  shows "DockerImage_new (JObj hidden own)
           = Inr \<lparr>di_registryType = t, di_registry = None, di_repository = repository, di_tag = tag\<rparr>"
proof -
  let ?v = "\<lparr>di_registryType = t, di_registry = None, di_repository = repository, di_tag = tag\<rparr>"
  have "DockerImageObject [] (JObj hidden own) = ([], Some ?v)"
    unfolding DockerImageObject_fields
    using assms
    by (auto simp: field_def schema_ok DockerRegistryType_def simp del: get_property.simps)
  moreover have "docr_has_registry ?v"
    using assms(2) by (auto simp: docr_has_registry_def)
  ultimately have "DockerImageSchema [] (JObj hidden own) = ([], Some ?v)"
    by (simp add: DockerImageSchema_ok)
  then show ?thesis
    by (simp add: DockerImage_new_def parse_ok [THEN iffD2])
qed

lemma DockerImage_toJSON_omits_registry:
  "di_registry img = None \<Longrightarrow> \<not> has_property ''registry'' (DockerImage_toJSON img)"
  by (simp add: DockerImage_toJSON_def)

text \<open>
  C8. For each configuration entity (EnvironmentVariable, HealthCheck, DockerImage,
  GitHubSource, VolumeMount): when the constructor accepts a configuration and returns
  the entity \<open>e\<close>, the constructor applied to the projection \<open>toJSON(e)\<close> raises
  nothing and returns \<open>e\<close> again, so the projection of the reconstructed entity is the
  original projection.
\<close>

theorem entity_roundtrip:
  "(EnvironmentVariable_new c1 = Inr e1 \<longrightarrow>
      EnvironmentVariable_new (EnvironmentVariable_toJSON e1) = Inr e1)
   \<and> (HealthCheck_new c2 = Inr e2 \<longrightarrow> HealthCheck_new (HealthCheck_toJSON e2) = Inr e2)
   \<and> (DockerImage_new c3 = Inr e3 \<longrightarrow> DockerImage_new (DockerImage_toJSON e3) = Inr e3)
   \<and> (GitHubSource_new c4 = Inr e4 \<longrightarrow> GitHubSource_new (GitHubSource_toJSON e4) = Inr e4)
   \<and> (VolumeMount_new c5 = Inr e5 \<longrightarrow> VolumeMount_new (VolumeMount_toJSON e5) = Inr e5)"
  using EnvironmentVariable_roundtrip [of c1 e1] HealthCheck_roundtrip [of c2 e2]
    DockerImage_roundtrip [of c3 e3] GitHubSource_roundtrip [of c4 e4]
    VolumeMount_roundtrip [of c5 e5]
  by blast

theorem entity_roundtrip_witness:
  "EnvironmentVariable_new (JObj [] [(''key'', JStr ''PORT''), (''value'', JStr ''3000'')])
     = Inr \<lparr>ev_key = ''PORT'', ev_value = JStr ''3000'', ev_type = ''GENERAL'', ev_scope = ''RUN_TIME''\<rparr>
   \<and> EnvironmentVariable_new (EnvironmentVariable_toJSON
         \<lparr>ev_key = ''PORT'', ev_value = JStr ''3000'', ev_type = ''GENERAL'', ev_scope = ''RUN_TIME''\<rparr>)
     = Inr \<lparr>ev_key = ''PORT'', ev_value = JStr ''3000'', ev_type = ''GENERAL'', ev_scope = ''RUN_TIME''\<rparr>
   \<and> HealthCheck_new (JObj [] [(''httpPath'', JStr ''/''), (''port'', JNum 3000)])
     = Inr \<lparr>hc_httpPath = ''/'', hc_port = 3000, hc_initialDelaySeconds = 0, hc_periodSeconds = 10,
            hc_timeoutSeconds = 1, hc_successThreshold = 1, hc_failureThreshold = 3\<rparr>
   \<and> HealthCheck_new (HealthCheck_toJSON
         \<lparr>hc_httpPath = ''/'', hc_port = 3000, hc_initialDelaySeconds = 0, hc_periodSeconds = 10,
          hc_timeoutSeconds = 1, hc_successThreshold = 1, hc_failureThreshold = 3\<rparr>)
     = Inr \<lparr>hc_httpPath = ''/'', hc_port = 3000, hc_initialDelaySeconds = 0, hc_periodSeconds = 10,
            hc_timeoutSeconds = 1, hc_successThreshold = 1, hc_failureThreshold = 3\<rparr>
   \<and> DockerImage_new (JObj [] [(''registryType'', JStr ''DOCR''), (''registry'', JStr ''my-registry''),
                               (''repository'', JStr ''my-app''), (''tag'', JStr ''v1.0.0'')])
     = Inr \<lparr>di_registryType = ''DOCR'', di_registry = Some ''my-registry'',
            di_repository = ''my-app'', di_tag = ''v1.0.0''\<rparr>
   \<and> DockerImage_new (DockerImage_toJSON
         \<lparr>di_registryType = ''DOCR'', di_registry = Some ''my-registry'',
          di_repository = ''my-app'', di_tag = ''v1.0.0''\<rparr>)
     = Inr \<lparr>di_registryType = ''DOCR'', di_registry = Some ''my-registry'',
            di_repository = ''my-app'', di_tag = ''v1.0.0''\<rparr>
   \<and> GitHubSource_new (JObj [] [(''repo'', JStr ''supabase/postgrest''), (''branch'', JStr ''main'')])
     = Inr \<lparr>gh_repo = ''supabase/postgrest'', gh_branch = ''main'', gh_sourceDir = ''/'',
            gh_dockerfilePath = ''Dockerfile'', gh_deployOnPush = False\<rparr>
   \<and> GitHubSource_new (GitHubSource_toJSON
         \<lparr>gh_repo = ''supabase/postgrest'', gh_branch = ''main'', gh_sourceDir = ''/'',
          gh_dockerfilePath = ''Dockerfile'', gh_deployOnPush = False\<rparr>)
     = Inr \<lparr>gh_repo = ''supabase/postgrest'', gh_branch = ''main'', gh_sourceDir = ''/'',
            gh_dockerfilePath = ''Dockerfile'', gh_deployOnPush = False\<rparr>
   \<and> VolumeMount_new (JObj [] [(''name'', JStr ''data''), (''mountPath'', JStr ''/data'')])
     = Inr \<lparr>vm_name = ''data'', vm_mountPath = ''/data'', vm_size = ''1GB''\<rparr>
   \<and> VolumeMount_new (VolumeMount_toJSON
         \<lparr>vm_name = ''data'', vm_mountPath = ''/data'', vm_size = ''1GB''\<rparr>)
     = Inr \<lparr>vm_name = ''data'', vm_mountPath = ''/data'', vm_size = ''1GB''\<rparr>"
proof -
  have c1: "EnvironmentVariable_new (JObj [] [(''key'', JStr ''PORT''), (''value'', JStr ''3000'')])
     = Inr \<lparr>ev_key = ''PORT'', ev_value = JStr ''3000'', ev_type = ''GENERAL'', ev_scope = ''RUN_TIME''\<rparr>"
    by code_simp
  have c2: "HealthCheck_new (JObj [] [(''httpPath'', JStr ''/''), (''port'', JNum 3000)])
     = Inr \<lparr>hc_httpPath = ''/'', hc_port = 3000, hc_initialDelaySeconds = 0, hc_periodSeconds = 10,
            hc_timeoutSeconds = 1, hc_successThreshold = 1, hc_failureThreshold = 3\<rparr>"
    by code_simp
  have c3: "DockerImage_new (JObj [] [(''registryType'', JStr ''DOCR''), (''registry'', JStr ''my-registry''),
                               (''repository'', JStr ''my-app''), (''tag'', JStr ''v1.0.0'')])
     = Inr \<lparr>di_registryType = ''DOCR'', di_registry = Some ''my-registry'',
            di_repository = ''my-app'', di_tag = ''v1.0.0''\<rparr>"
    by code_simp
  have c4: "GitHubSource_new (JObj [] [(''repo'', JStr ''supabase/postgrest''), (''branch'', JStr ''main'')])
     = Inr \<lparr>gh_repo = ''supabase/postgrest'', gh_branch = ''main'', gh_sourceDir = ''/'',
            gh_dockerfilePath = ''Dockerfile'', gh_deployOnPush = False\<rparr>"
    by code_simp
  have c5: "VolumeMount_new (JObj [] [(''name'', JStr ''data''), (''mountPath'', JStr ''/data'')])
     = Inr \<lparr>vm_name = ''data'', vm_mountPath = ''/data'', vm_size = ''1GB''\<rparr>"
    by code_simp
  show ?thesis
    using c1 c2 c3 c4 c5
      entity_roundtrip [where
        ?c1.0 = "JObj [] [(''key'', JStr ''PORT''), (''value'', JStr ''3000'')]" and
        ?e1.0 = "\<lparr>ev_key = ''PORT'', ev_value = JStr ''3000'', ev_type = ''GENERAL'', ev_scope = ''RUN_TIME''\<rparr>" and
        ?c2.0 = "JObj [] [(''httpPath'', JStr ''/''), (''port'', JNum 3000)]" and
        ?e2.0 = "\<lparr>hc_httpPath = ''/'', hc_port = 3000, hc_initialDelaySeconds = 0, hc_periodSeconds = 10,
            hc_timeoutSeconds = 1, hc_successThreshold = 1, hc_failureThreshold = 3\<rparr>" and
        ?c3.0 = "JObj [] [(''registryType'', JStr ''DOCR''), (''registry'', JStr ''my-registry''),
                               (''repository'', JStr ''my-app''), (''tag'', JStr ''v1.0.0'')]" and
        ?e3.0 = "\<lparr>di_registryType = ''DOCR'', di_registry = Some ''my-registry'',
            di_repository = ''my-app'', di_tag = ''v1.0.0''\<rparr>" and
        ?c4.0 = "JObj [] [(''repo'', JStr ''supabase/postgrest''), (''branch'', JStr ''main'')]" and
        ?e4.0 = "\<lparr>gh_repo = ''supabase/postgrest'', gh_branch = ''main'', gh_sourceDir = ''/'',
            gh_dockerfilePath = ''Dockerfile'', gh_deployOnPush = False\<rparr>" and
        ?c5.0 = "JObj [] [(''name'', JStr ''data''), (''mountPath'', JStr ''/data'')]" and
        ?e5.0 = "\<lparr>vm_name = ''data'', vm_mountPath = ''/data'', vm_size = ''1GB''\<rparr>"]
    by simp
qed

text \<open>
  C10. For a configuration object whose \<open>value\<close> member is \<open>null\<close> or absent
  (\<open>undefined\<close>), the EnvironmentVariable constructor fails with a ZodError that holds
  the issue at path \<open>value\<close> with the message "Value is required"; two configurations
  that differ only in \<open>value\<close> being \<open>null\<close> in one and \<open>undefined\<close> in the other
  fail with the same error. With a non-blank string \<open>key\<close> and \<open>type\<close> and \<open>scope\<close>
  absent or among their tokens, every other \<open>value\<close> (\<open>0\<close>, \<open>false\<close>, the empty string
  and objects such as deferred-value handles included) is accepted and stored as it is.
\<close>

theorem EnvironmentVariable_value_required:
  "(get_property (JObj hidden own) ''value'' = JNull
      \<or> get_property (JObj hidden own) ''value'' = JUndefined \<longrightarrow>
      (\<exists>issues. EnvironmentVariable_new (JObj hidden own) = Inl (ZodError issues)
         \<and> ZodIssue custom [Key ''value''] (Message ''Value is required'') \<in> set issues))
   \<and> (get_property (JObj h1 o1) ''value'' = JNull
        \<and> get_property (JObj h2 o2) ''value'' = JUndefined
        \<and> get_property (JObj h1 o1) ''key'' = get_property (JObj h2 o2) ''key''
        \<and> get_property (JObj h1 o1) ''type'' = get_property (JObj h2 o2) ''type''
        \<and> get_property (JObj h1 o1) ''scope'' = get_property (JObj h2 o2) ''scope'' \<longrightarrow>
        EnvironmentVariable_new (JObj h1 o1) = EnvironmentVariable_new (JObj h2 o2))
   \<and> (get_property (JObj h3 o3) ''key'' = JStr k \<and> non_empty k
        \<and> get_property (JObj h3 o3) ''value'' = v \<and> v \<noteq> JNull \<and> v \<noteq> JUndefined
        \<and> ((get_property (JObj h3 o3) ''type'' = JUndefined \<and> t = ''GENERAL'')
            \<or> (get_property (JObj h3 o3) ''type'' = JStr t \<and> t \<in> set [''GENERAL'', ''SECRET'']))
        \<and> ((get_property (JObj h3 o3) ''scope'' = JUndefined \<and> s = ''RUN_TIME'')
            \<or> (get_property (JObj h3 o3) ''scope'' = JStr s
                \<and> s \<in> set [''RUN_TIME'', ''BUILD_TIME'', ''DEPLOY_TIME''])) \<longrightarrow>
        EnvironmentVariable_new (JObj h3 o3)
          = Inr \<lparr>ev_key = k, ev_value = v, ev_type = t, ev_scope = s\<rparr>)"
proof (intro conjI impI)
  assume "get_property (JObj hidden own) ''value'' = JNull
          \<or> get_property (JObj hidden own) ''value'' = JUndefined"
  then show "\<exists>issues. EnvironmentVariable_new (JObj hidden own) = Inl (ZodError issues)
         \<and> ZodIssue custom [Key ''value''] (Message ''Value is required'') \<in> set issues"
    by (rule EnvironmentVariable_null_value)
next
  assume "get_property (JObj h1 o1) ''value'' = JNull
        \<and> get_property (JObj h2 o2) ''value'' = JUndefined
        \<and> get_property (JObj h1 o1) ''key'' = get_property (JObj h2 o2) ''key''
        \<and> get_property (JObj h1 o1) ''type'' = get_property (JObj h2 o2) ''type''
        \<and> get_property (JObj h1 o1) ''scope'' = get_property (JObj h2 o2) ''scope''"
  then show "EnvironmentVariable_new (JObj h1 o1) = EnvironmentVariable_new (JObj h2 o2)"
    using EnvironmentVariable_null_like_undefined [of h1 o1 h2 o2] by blast
next
  assume "get_property (JObj h3 o3) ''key'' = JStr k \<and> non_empty k
        \<and> get_property (JObj h3 o3) ''value'' = v \<and> v \<noteq> JNull \<and> v \<noteq> JUndefined
        \<and> ((get_property (JObj h3 o3) ''type'' = JUndefined \<and> t = ''GENERAL'')
            \<or> (get_property (JObj h3 o3) ''type'' = JStr t \<and> t \<in> set [''GENERAL'', ''SECRET'']))
        \<and> ((get_property (JObj h3 o3) ''scope'' = JUndefined \<and> s = ''RUN_TIME'')
            \<or> (get_property (JObj h3 o3) ''scope'' = JStr s
                \<and> s \<in> set [''RUN_TIME'', ''BUILD_TIME'', ''DEPLOY_TIME'']))"
  then show "EnvironmentVariable_new (JObj h3 o3)
          = Inr \<lparr>ev_key = k, ev_value = v, ev_type = t, ev_scope = s\<rparr>"
    using EnvironmentVariable_accepts [of h3 o3 k v t s] by blast
qed

theorem EnvironmentVariable_value_required_witness:
  "get_property (JObj [] [(''key'', JStr ''K''), (''value'', JNull)]) ''value'' = JNull
   \<and> EnvironmentVariable_new (JObj [] [(''key'', JStr ''K''), (''value'', JNull)])
       = Inl (ZodError [ZodIssue custom [Key ''value''] (Message ''Value is required'')])
   \<and> EnvironmentVariable_new (JObj [] [(''key'', JStr ''K''), (''value'', JNull)])
       = EnvironmentVariable_new (JObj [] [(''key'', JStr ''K'')])
   \<and> EnvironmentVariable_new
         (JObj [] [(''key'', JStr ''K''),
                   (''value'', JObj [(''then'', JFunc ''then'')] [(''isSecret'', JBool False)])])
       = Inr \<lparr>ev_key = ''K'',
              ev_value = JObj [(''then'', JFunc ''then'')] [(''isSecret'', JBool False)],
              ev_type = ''GENERAL'', ev_scope = ''RUN_TIME''\<rparr>
   \<and> EnvironmentVariable_new (JObj [] [(''key'', JStr ''K''), (''value'', JNum 0)])
       = Inr \<lparr>ev_key = ''K'', ev_value = JNum 0, ev_type = ''GENERAL'', ev_scope = ''RUN_TIME''\<rparr>
   \<and> EnvironmentVariable_new (JObj [] [(''key'', JStr ''K''), (''value'', JBool False)])
       = Inr \<lparr>ev_key = ''K'', ev_value = JBool False, ev_type = ''GENERAL'', ev_scope = ''RUN_TIME''\<rparr>
   \<and> EnvironmentVariable_new (JObj [] [(''key'', JStr ''K''), (''value'', JStr [])])
       = Inr \<lparr>ev_key = ''K'', ev_value = JStr [], ev_type = ''GENERAL'', ev_scope = ''RUN_TIME''\<rparr>"
proof -
  have null: "EnvironmentVariable_new (JObj [] [(''key'', JStr ''K''), (''value'', JNull)])
       = Inl (ZodError [ZodIssue custom [Key ''value''] (Message ''Value is required'')])"
    by code_simp
  have ne: "non_empty ''K''" by code_simp
  show ?thesis
    using null ne
      EnvironmentVariable_value_required [where hidden = "[]"
        and own = "[(''key'', JStr ''K''), (''value'', JNull)]"
        and ?h1.0 = "[]" and ?o1.0 = "[(''key'', JStr ''K''), (''value'', JNull)]"
        and ?h2.0 = "[]" and ?o2.0 = "[(''key'', JStr ''K'')]"
        and ?h3.0 = "[]"
        and ?o3.0 = "[(''key'', JStr ''K''),
                     (''value'', JObj [(''then'', JFunc ''then'')] [(''isSecret'', JBool False)])]"
        and k = "''K''"
        and v = "JObj [(''then'', JFunc ''then'')] [(''isSecret'', JBool False)]"
        and t = "''GENERAL''" and s = "''RUN_TIME''"]
      EnvironmentVariable_accepts [of "[]" "[(''key'', JStr ''K''), (''value'', JNum 0)]"
        "''K''" "JNum 0" "''GENERAL''" "''RUN_TIME''"]
      EnvironmentVariable_accepts [of "[]" "[(''key'', JStr ''K''), (''value'', JBool False)]"
        "''K''" "JBool False" "''GENERAL''" "''RUN_TIME''"]
      EnvironmentVariable_accepts [of "[]" "[(''key'', JStr ''K''), (''value'', JStr [])]"
        "''K''" "JStr []" "''GENERAL''" "''RUN_TIME''"]
    by simp
qed

text \<open>
  C6. For a configuration object with \<open>registryType\<close> DOCR, \<open>registry\<close> absent, empty
  or made of white space only, and \<open>repository\<close> and \<open>tag\<close> strings, the DockerImage
  constructor fails with a ZodError that holds an issue at path \<open>registry\<close>; when
  \<open>repository\<close> and \<open>tag\<close> are non-blank, every issue of the error is at that path.
  With \<open>registryType\<close> DOCKER_HUB or GHCR, \<open>registry\<close> absent and non-blank
  \<open>repository\<close> and \<open>tag\<close>, the constructor succeeds with no registry. The projection
  of an image without registry has no \<open>registry\<close> member. (A \<open>repository\<close> or
  \<open>tag\<close> that is not a string aborts the parse before the cross-field rule runs;
  the constructor's parameter type excludes such a configuration.)
\<close>

theorem DockerImage_registry_rule:
  "(get_property (JObj hidden own) ''registryType'' = JStr ''DOCR''
      \<and> (get_property (JObj hidden own) ''registry'' = JUndefined
          \<or> (\<exists>r. get_property (JObj hidden own) ''registry'' = JStr r \<and> trim r = []))
      \<and> get_property (JObj hidden own) ''repository'' = JStr repository
      \<and> get_property (JObj hidden own) ''tag'' = JStr tag \<longrightarrow>
      (\<exists>issues. DockerImage_new (JObj hidden own) = Inl (ZodError issues)
         \<and> list_ex (\<lambda>i. issue_path i = [Key ''registry'']) issues
         \<and> (non_empty repository \<and> non_empty tag \<longrightarrow>
              list_all (\<lambda>i. issue_path i = [Key ''registry'']) issues)))
   \<and> (get_property (JObj h2 o2) ''registryType'' = JStr t
        \<and> (t = ''DOCKER_HUB'' \<or> t = ''GHCR'')
        \<and> get_property (JObj h2 o2) ''registry'' = JUndefined
        \<and> get_property (JObj h2 o2) ''repository'' = JStr repository2 \<and> non_empty repository2
        \<and> get_property (JObj h2 o2) ''tag'' = JStr tag2 \<and> non_empty tag2 \<longrightarrow>
        DockerImage_new (JObj h2 o2)
          = Inr \<lparr>di_registryType = t, di_registry = None, di_repository = repository2,
                 di_tag = tag2\<rparr>)
   \<and> (di_registry img = None \<longrightarrow> \<not> has_property ''registry'' (DockerImage_toJSON img))"
proof (intro conjI impI)
  assume a: "get_property (JObj hidden own) ''registryType'' = JStr ''DOCR''
      \<and> (get_property (JObj hidden own) ''registry'' = JUndefined
          \<or> (\<exists>r. get_property (JObj hidden own) ''registry'' = JStr r \<and> trim r = []))
      \<and> get_property (JObj hidden own) ''repository'' = JStr repository
      \<and> get_property (JObj hidden own) ''tag'' = JStr tag"
  have "\<exists>issues. DockerImage_new (JObj hidden own) = Inl (ZodError issues)
           \<and> list_ex (\<lambda>i. issue_path i = [Key ''registry'']) issues
           \<and> (if non_empty repository \<and> non_empty tag
               then list_all (\<lambda>i. issue_path i = [Key ''registry'']) issues else True)"
    by (rule DockerImage_docr_fails) (use a in blast)+
  then obtain issues where "DockerImage_new (JObj hidden own) = Inl (ZodError issues)"
    "list_ex (\<lambda>i. issue_path i = [Key ''registry'']) issues"
    "non_empty repository \<and> non_empty tag \<longrightarrow>
       list_all (\<lambda>i. issue_path i = [Key ''registry'']) issues"
    by (auto split: if_splits)
  then show "\<exists>issues. DockerImage_new (JObj hidden own) = Inl (ZodError issues)
         \<and> list_ex (\<lambda>i. issue_path i = [Key ''registry'']) issues
         \<and> (non_empty repository \<and> non_empty tag \<longrightarrow>
              list_all (\<lambda>i. issue_path i = [Key ''registry'']) issues)"
    by blast
next
  assume "get_property (JObj h2 o2) ''registryType'' = JStr t
        \<and> (t = ''DOCKER_HUB'' \<or> t = ''GHCR'')
        \<and> get_property (JObj h2 o2) ''registry'' = JUndefined
        \<and> get_property (JObj h2 o2) ''repository'' = JStr repository2 \<and> non_empty repository2
        \<and> get_property (JObj h2 o2) ''tag'' = JStr tag2 \<and> non_empty tag2"
  then show "DockerImage_new (JObj h2 o2)
          = Inr \<lparr>di_registryType = t, di_registry = None, di_repository = repository2,
                 di_tag = tag2\<rparr>"
    using DockerImage_without_registry [of h2 o2 t repository2 tag2] by blast
next
  assume "di_registry img = None"
  then show "\<not> has_property ''registry'' (DockerImage_toJSON img)"
    by (rule DockerImage_toJSON_omits_registry)
qed

theorem DockerImage_registry_rule_witness:
  "trim ''   '' = []
   \<and> DockerImage_new (JObj [] [(''registryType'', JStr ''DOCR''), (''registry'', JStr ''   ''),
                               (''repository'', JStr ''nginx''), (''tag'', JStr ''latest'')])
       = Inl (ZodError [ZodIssue custom [Key ''registry'']
                          (Message ''Registry must be non-empty when specified''),
                        ZodIssue custom [Key ''registry'']
                          (Message ''DOCR registry type requires non-empty registry field'')])
   \<and> DockerImage_new (JObj [] [(''registryType'', JStr ''DOCR''),
                               (''repository'', JStr ''nginx''), (''tag'', JStr ''latest'')])
       = Inl (ZodError [ZodIssue custom [Key ''registry'']
                          (Message ''DOCR registry type requires non-empty registry field'')])
   \<and> DockerImage_new (JObj [] [(''registryType'', JStr ''GHCR''),
                               (''repository'', JStr ''nginx''), (''tag'', JStr ''latest'')])
       = Inr \<lparr>di_registryType = ''GHCR'', di_registry = None, di_repository = ''nginx'',
              di_tag = ''latest''\<rparr>
   \<and> DockerImage_toJSON \<lparr>di_registryType = ''GHCR'', di_registry = None, di_repository = ''nginx'',
                          di_tag = ''latest''\<rparr>
       = JObj [] [(''registryType'', JStr ''GHCR''), (''repository'', JStr ''nginx''),
                  (''tag'', JStr ''latest'')]
   \<and> \<not> has_property ''registry''
         (DockerImage_toJSON \<lparr>di_registryType = ''GHCR'', di_registry = None,
                               di_repository = ''nginx'', di_tag = ''latest''\<rparr>)"
proof -
  have blank: "trim ''   '' = []" by code_simp
  have ne: "non_empty ''nginx''" "non_empty ''latest''" by code_simp+
  have f1: "DockerImage_new (JObj [] [(''registryType'', JStr ''DOCR''), (''registry'', JStr ''   ''),
                               (''repository'', JStr ''nginx''), (''tag'', JStr ''latest'')])
       = Inl (ZodError [ZodIssue custom [Key ''registry'']
                          (Message ''Registry must be non-empty when specified''),
                        ZodIssue custom [Key ''registry'']
                          (Message ''DOCR registry type requires non-empty registry field'')])"
    by code_simp
  have f2: "DockerImage_new (JObj [] [(''registryType'', JStr ''DOCR''),
                               (''repository'', JStr ''nginx''), (''tag'', JStr ''latest'')])
       = Inl (ZodError [ZodIssue custom [Key ''registry'']
                          (Message ''DOCR registry type requires non-empty registry field'')])"
    by code_simp
  have f3: "DockerImage_toJSON \<lparr>di_registryType = ''GHCR'', di_registry = None,
                                 di_repository = ''nginx'', di_tag = ''latest''\<rparr>
       = JObj [] [(''registryType'', JStr ''GHCR''), (''repository'', JStr ''nginx''),
                  (''tag'', JStr ''latest'')]"
    by (simp add: DockerImage_toJSON_def)
  show ?thesis
    using blank ne f1 f2 f3
      DockerImage_registry_rule [where hidden = "[]"
        and own = "[(''registryType'', JStr ''DOCR''), (''registry'', JStr ''   ''),
                    (''repository'', JStr ''nginx''), (''tag'', JStr ''latest'')]"
        and repository = "''nginx''" and tag = "''latest''"
        and ?h2.0 = "[]"
        and ?o2.0 = "[(''registryType'', JStr ''GHCR''),
                     (''repository'', JStr ''nginx''), (''tag'', JStr ''latest'')]"
        and t = "''GHCR''" and ?repository2.0 = "''nginx''" and ?tag2.0 = "''latest''"
        and img = "\<lparr>di_registryType = ''GHCR'', di_registry = None,
                     di_repository = ''nginx'', di_tag = ''latest''\<rparr>"]
    by simp
qed

section \<open>Properties of the resource aggregates and of the error kinds\<close>

lemma findIndex_iff: "findIndex P xs \<noteq> - 1 \<longleftrightarrow> list_ex P xs"
proof -
  have "(find (\<lambda>i. P (xs ! i)) [0..<length xs] = None) = (\<not> list_ex P xs)"
    by (auto simp: find_None_iff list_ex_iff in_set_conv_nth) (metis nth_mem)
  then show ?thesis
    by (cases "find (\<lambda>i. P (xs ! i)) [0..<length xs]") (auto simp: findIndex_def)
qed

lemma addEnv_duplicate:
  assumes "list_ex (\<lambda>e. ev_key e = ev_key env) (res_envs this)"
  shows "addEnv env this =
           (Inl (ZodError [ZodIssue custom [Key ''key'']
                   (Message (''Environment variable with key '' @ [CHR 0x22] @ ev_key env
                             @ [CHR 0x22] @ '' already exists''))]), this)"
  using assms by (simp add: addEnv_def Let_def findIndex_iff)

lemma addEnv_fresh:
  assumes "\<not> list_ex (\<lambda>e. ev_key e = ev_key env) (res_envs this)"
  shows "addEnv env this = (Inr (), this\<lparr>res_envs := res_envs this @ [env]\<rparr>)"
  using assms by (simp add: addEnv_def Let_def findIndex_iff)

lemma reportsD: "reports sch \<Longrightarrow> snd (sch p d) = None \<Longrightarrow> fst (sch p d) \<noteq> []"
  by (simp add: reports_def)

lemma z_string_reports: "reports z_string"
  by (auto simp: reports_def z_string_def split: json.splits)

lemma z_number_reports: "reports z_number"
  by (auto simp: reports_def z_number_def split: json.splits)

lemma z_boolean_reports: "reports z_boolean"
  by (auto simp: reports_def z_boolean_def split: json.splits)

lemma z_any_reports: "reports z_any"
  by (simp add: reports_def z_any_def)

lemma z_enum_reports: "reports (z_enum opts)"
  by (auto simp: reports_def z_enum_def split: json.splits if_splits)

lemma check_reports: "reports inner \<Longrightarrow> reports (check c m P inner)"
  by (auto simp: reports_def check_def split: prod.splits option.splits if_splits)
     (metis fst_conv snd_conv)

lemma refine_reports: "reports inner \<Longrightarrow> reports (refine P m inner)"
  by (simp add: refine_def check_reports)

lemma z_int_reports: "reports inner \<Longrightarrow> reports (z_int inner)"
  by (simp add: z_int_def check_reports)

lemma z_min_reports: "reports inner \<Longrightarrow> reports (z_min n m inner)"
  by (simp add: z_min_def check_reports)

lemma z_max_reports: "reports inner \<Longrightarrow> reports (z_max n m inner)"
  by (simp add: z_max_def check_reports)

lemma z_optional_reports: "reports inner \<Longrightarrow> reports (z_optional inner)"
  by (auto simp: reports_def z_optional_def split: prod.splits)
     (metis fst_conv snd_conv)

lemma z_default_reports: "reports inner \<Longrightarrow> reports (z_default d inner)"
  by (simp add: reports_def z_default_def)

lemma z_array_reports:
  assumes "reports element"
  shows "reports (z_array element)"
  unfolding reports_def
proof (intro allI impI)
  fix p d
  assume none: "snd (z_array element p d) = None"
  show "fst (z_array element p d) \<noteq> []"
  proof (cases d)
    case (JArr xs)
    let ?results = "map (\<lambda>(i, x). element (p @ [Index i]) x) (enumerate 0 xs)"
    from none JArr have "\<not> list_all (\<lambda>r. snd r \<noteq> None) ?results"
      by (auto simp: z_array_def Let_def split: if_splits)
    then obtain i x where ix: "(i, x) \<in> set (enumerate 0 xs)"
      and "snd (element (p @ [Index i]) x) = None"
      by (auto simp: list_all_iff)
    with assms have "fst (element (p @ [Index i]) x) \<noteq> []" by (simp add: reportsD)
    moreover have "fst (element (p @ [Index i]) x) \<in> set (map fst ?results)"
      using ix by force
    ultimately have "\<exists>ys \<in> set (map fst ?results). ys \<noteq> []" by blast
    then have "concat (map fst ?results) \<noteq> []" by (simp only: concat_eq_Nil_conv) blast
    with JArr show ?thesis by (simp add: z_array_def Let_def)
  qed (simp_all add: z_array_def)
qed

lemmas reports_intros = z_string_reports z_number_reports z_boolean_reports z_any_reports
  z_enum_reports check_reports refine_reports z_int_reports z_min_reports z_max_reports
  z_optional_reports z_default_reports z_array_reports

lemma field_reports:
  "reports inner \<Longrightarrow> snd (field inner p d k) = None \<Longrightarrow> fst (field inner p d k) \<noteq> []"
  by (simp add: field_def reportsD)

lemma parse_Inl_zod_failure:
  assumes "reports sch" and "parse sch d = Inl e"
  shows "zod_failure e"
proof (cases "sch [] d")
  case (Pair issues r)
  show ?thesis
  proof (cases issues)
    case Nil
    with Pair assms(1) have "r \<noteq> None"
      using reportsD [of sch "[]" d] by auto
    with Pair Nil assms(2) show ?thesis by (auto simp: parse_def)
  next
    case (Cons i rest)
    with Pair assms(2) show ?thesis by (auto simp: parse_def)
  qed
qed

lemma EnvironmentVariableSchema_reports: "reports EnvironmentVariableSchema"
  unfolding reports_def
proof (intro allI impI)
  fix p d
  assume none: "snd (EnvironmentVariableSchema p d) = None"
  show "fst (EnvironmentVariableSchema p d) \<noteq> []"
  proof (cases d)
    case (JObj hidden own)
    note f = field_reports [where p = p and d = "JObj hidden own"]
    from none show ?thesis
      unfolding JObj EnvironmentVariableSchema_def
      by (auto simp: Let_def case_prod_beta bind_eq_None_conv EnvVarType_def EnvVarScope_def
            dest!: f [rotated] intro!: reports_intros)
  qed (simp_all add: EnvironmentVariableSchema_def object_type_issue_def)
qed

lemma HealthCheckSchema_reports: "reports HealthCheckSchema"
  unfolding reports_def
proof (intro allI impI)
  fix p d
  assume none: "snd (HealthCheckSchema p d) = None"
  show "fst (HealthCheckSchema p d) \<noteq> []"
  proof (cases d)
    case (JObj hidden own)
    note f = field_reports [where p = p and d = "JObj hidden own"]
    from none show ?thesis
      unfolding JObj HealthCheckSchema_def
      by (auto simp: Let_def case_prod_beta bind_eq_None_conv 
            dest!: f [rotated] intro!: reports_intros)
  qed (simp_all add: HealthCheckSchema_def object_type_issue_def)
qed

lemma DockerImageObject_reports: "reports DockerImageObject"
  unfolding reports_def
proof (intro allI impI)
  fix p d
  assume none: "snd (DockerImageObject p d) = None"
  show "fst (DockerImageObject p d) \<noteq> []"
  proof (cases d)
    case (JObj hidden own)
    note f = field_reports [where p = p and d = "JObj hidden own"]
    from none show ?thesis
      unfolding JObj DockerImageObject_def
      by (auto simp: Let_def case_prod_beta bind_eq_None_conv DockerRegistryType_def
            dest!: f [rotated] intro!: reports_intros)
  qed (simp_all add: DockerImageObject_def object_type_issue_def)
qed

lemma GitHubSourceSchema_reports: "reports GitHubSourceSchema"
  unfolding reports_def
proof (intro allI impI)
  fix p d
  assume none: "snd (GitHubSourceSchema p d) = None"
  show "fst (GitHubSourceSchema p d) \<noteq> []"
  proof (cases d)
    case (JObj hidden own)
    note f = field_reports [where p = p and d = "JObj hidden own"]
    from none show ?thesis
      unfolding JObj GitHubSourceSchema_def
      by (auto simp: Let_def case_prod_beta bind_eq_None_conv 
            dest!: f [rotated] intro!: reports_intros)
  qed (simp_all add: GitHubSourceSchema_def object_type_issue_def)
qed

lemma VolumeMountSchema_reports: "reports VolumeMountSchema"
  unfolding reports_def
proof (intro allI impI)
  fix p d
  assume none: "snd (VolumeMountSchema p d) = None"
  show "fst (VolumeMountSchema p d) \<noteq> []"
  proof (cases d)
    case (JObj hidden own)
    note f = field_reports [where p = p and d = "JObj hidden own"]
    from none show ?thesis
      unfolding JObj VolumeMountSchema_def
      by (auto simp: Let_def case_prod_beta bind_eq_None_conv 
            dest!: f [rotated] intro!: reports_intros)
  qed (simp_all add: VolumeMountSchema_def object_type_issue_def)
qed

lemma AppPlatformResourceSchema_reports: "reports AppPlatformResourceSchema"
  unfolding reports_def
proof (intro allI impI)
  fix p d
  assume none: "snd (AppPlatformResourceSchema p d) = None"
  show "fst (AppPlatformResourceSchema p d) \<noteq> []"
  proof (cases d)
    case (JObj hidden own)
    note f = field_reports [where p = p and d = "JObj hidden own"]
    from none show ?thesis
      unfolding JObj AppPlatformResourceSchema_def
      by (auto simp: Let_def case_prod_beta bind_eq_None_conv 
            dest!: f [rotated] intro!: reports_intros)
  qed (simp_all add: AppPlatformResourceSchema_def object_type_issue_def)
qed

lemma ServicePrimitives_reports: "reports ServicePrimitives"
  unfolding reports_def
proof (intro allI impI)
  fix p d
  assume none: "snd (ServicePrimitives p d) = None"
  show "fst (ServicePrimitives p d) \<noteq> []"
  proof (cases d)
    case (JObj hidden own)
    note f = field_reports [where p = p and d = "JObj hidden own"]
    from none show ?thesis
      unfolding JObj ServicePrimitives_def
      by (auto simp: Let_def case_prod_beta bind_eq_None_conv 
            dest!: f [rotated] intro!: reports_intros)
  qed (simp_all add: ServicePrimitives_def object_type_issue_def)
qed

lemma JobPrimitives_reports: "reports JobPrimitives"
  unfolding reports_def
proof (intro allI impI)
  fix p d
  assume none: "snd (JobPrimitives p d) = None"
  show "fst (JobPrimitives p d) \<noteq> []"
  proof (cases d)
    case (JObj hidden own)
    note f = field_reports [where p = p and d = "JObj hidden own"]
    from none show ?thesis
      unfolding JObj JobPrimitives_def
      by (auto simp: Let_def case_prod_beta bind_eq_None_conv 
            dest!: f [rotated] intro!: reports_intros)
  qed (simp_all add: JobPrimitives_def object_type_issue_def)
qed

lemma WorkerPrimitives_reports: "reports WorkerPrimitives"
  unfolding reports_def
proof (intro allI impI)
  fix p d
  assume none: "snd (WorkerPrimitives p d) = None"
  show "fst (WorkerPrimitives p d) \<noteq> []"
  proof (cases d)
    case (JObj hidden own)
    note f = field_reports [where p = p and d = "JObj hidden own"]
    from none show ?thesis
      unfolding JObj WorkerPrimitives_def
      by (auto simp: Let_def case_prod_beta bind_eq_None_conv 
            dest!: f [rotated] intro!: reports_intros)
  qed (simp_all add: WorkerPrimitives_def object_type_issue_def)
qed

lemma DockerImageSchema_reports: "reports DockerImageSchema"
  using DockerImageObject_reports
  by (auto simp: reports_def DockerImageSchema_def split: prod.splits option.splits if_splits)
     (metis fst_conv snd_conv)

lemma EnvironmentVariable_new_zod_failure:
  "EnvironmentVariable_new cfg = Inl e \<Longrightarrow> zod_failure e"
  using parse_Inl_zod_failure [OF EnvironmentVariableSchema_reports, of cfg e]
  by (auto simp: EnvironmentVariable_new_def split: sum.splits)

lemma HealthCheck_new_zod_failure: "HealthCheck_new cfg = Inl e \<Longrightarrow> zod_failure e"
  using parse_Inl_zod_failure [OF HealthCheckSchema_reports, of cfg e]
  by (auto simp: HealthCheck_new_def split: sum.splits)

lemma DockerImage_new_zod_failure: "DockerImage_new cfg = Inl e \<Longrightarrow> zod_failure e"
  using parse_Inl_zod_failure [OF DockerImageSchema_reports, of cfg e]
  by (auto simp: DockerImage_new_def split: sum.splits)

lemma GitHubSource_new_zod_failure: "GitHubSource_new cfg = Inl e \<Longrightarrow> zod_failure e"
  using parse_Inl_zod_failure [OF GitHubSourceSchema_reports, of cfg e]
  by (auto simp: GitHubSource_new_def split: sum.splits)

lemma VolumeMount_new_zod_failure:
  assumes "cfg \<noteq> JUndefined" and "cfg \<noteq> JNull" and "VolumeMount_new cfg = Inl e"
  shows "zod_failure e"
proof -
  define obj where "obj = JObj [] [(''name'', get_property cfg ''name''),
      (''mountPath'', get_property cfg ''mountPath''),
      (''size'', if get_property cfg ''size'' = JUndefined \<or> get_property cfg ''size'' = JNull
                 then JStr ''1GB'' else get_property cfg ''size'')]"
  have "VolumeMount_new cfg =
          (case parse VolumeMountSchema obj of
             Inl e \<Rightarrow> Inl e
           | Inr data \<Rightarrow> Inr \<lparr>vm_name = vm_name data, vm_mountPath = vm_mountPath data,
                               vm_size = vm_size data\<rparr>)"
    using assms(1,2) by (simp add: VolumeMount_new_def obj_def Let_def)
  with assms(3) have "parse VolumeMountSchema obj = Inl e"
    by (auto split: sum.splits)
  then show ?thesis
    by (rule parse_Inl_zod_failure [OF VolumeMountSchema_reports])
qed

lemma AppPlatformResource_new_zod_failure:
  "AppPlatformResource_new name envs = Inl e \<Longrightarrow> zod_failure e"
  unfolding AppPlatformResource_new_def
  by (auto split: sum.splits prod.splits
        dest: parse_Inl_zod_failure [OF AppPlatformResourceSchema_reports])

lemma Service_new_zod_failure: "Service_new cfg = Inl e \<Longrightarrow> zod_failure e"
  unfolding Service_new_def
  by (auto split: sum.splits prod.splits
        dest: parse_Inl_zod_failure [OF ServicePrimitives_reports] AppPlatformResource_new_zod_failure)

lemma Job_new_zod_failure: "Job_new cfg = Inl e \<Longrightarrow> zod_failure e"
  unfolding Job_new_def
  by (auto split: sum.splits prod.splits
        dest: parse_Inl_zod_failure [OF JobPrimitives_reports] AppPlatformResource_new_zod_failure)

lemma Worker_new_zod_failure: "Worker_new cfg = Inl e \<Longrightarrow> zod_failure e"
  unfolding Worker_new_def
  by (auto split: sum.splits prod.splits
        dest: parse_Inl_zod_failure [OF WorkerPrimitives_reports] AppPlatformResource_new_zod_failure)

text \<open>
  C2. On every resource aggregate (the operation is the base class's, shared by Service,
  Job and Worker): when the env list already holds an entry with the key of the new
  variable, \<open>addEnv\<close> fails with a validation-library error whose one issue has the path
  \<open>key\<close>, and the resource after the call, its env list included, is the resource
  before it; when no entry has that key, \<open>addEnv\<close> succeeds and appends the variable.
\<close>

theorem addEnv_unique:
  "(list_ex (\<lambda>e. ev_key e = ev_key env) (res_envs this) \<longrightarrow>
      addEnv env this =
        (Inl (ZodError [ZodIssue custom [Key ''key'']
                (Message (''Environment variable with key '' @ [CHR 0x22] @ ev_key env
                          @ [CHR 0x22] @ '' already exists''))]), this))
   \<and> (\<not> list_ex (\<lambda>e. ev_key e = ev_key env) (res_envs this) \<longrightarrow>
        addEnv env this = (Inr (), this\<lparr>res_envs := res_envs this @ [env]\<rparr>))"
  using addEnv_duplicate [of env this] addEnv_fresh [of env this] by blast

theorem addEnv_unique_witness:
  "list_ex (\<lambda>e. ev_key e = ev_key (sample_env ''PORT'')) (res_envs sample_job)
   \<and> fst (addEnv (sample_env ''PORT'') sample_job)
       = Inl (ZodError [ZodIssue custom [Key ''key'']
                (Message (''Environment variable with key '' @ [CHR 0x22] @ ''PORT''
                          @ [CHR 0x22] @ '' already exists''))])
   \<and> snd (addEnv (sample_env ''PORT'') sample_job) = sample_job
   \<and> snd (addEnv (sample_env ''PORT'') sample_worker) = sample_worker
   \<and> \<not> list_ex (\<lambda>e. ev_key e = ev_key (sample_env ''PORT'')) (res_envs minimal_service)
   \<and> addEnv (sample_env ''PORT'') minimal_service
       = (Inr (), minimal_service\<lparr>res_envs := [sample_env ''PORT'']\<rparr>)
   \<and> addEnv (sample_env ''HOST'') sample_job
       = (Inr (), sample_job\<lparr>res_envs := [sample_env ''PORT'', sample_env ''HOST'']\<rparr>)"
proof -
  have k: "ev_key (sample_env ''PORT'') = ''PORT''" "ev_key (sample_env ''HOST'') = ''HOST''"
    by (simp_all add: sample_env_def)
  have envs: "res_envs sample_job = [sample_env ''PORT'']"
    "res_envs sample_worker = [sample_env ''PORT'']" "res_envs minimal_service = []"
    by (simp_all add: sample_job_def sample_worker_def minimal_service_def)
  show ?thesis
    using addEnv_unique [of "sample_env ''PORT''" sample_job]
      addEnv_unique [of "sample_env ''PORT''" sample_worker]
      addEnv_unique [of "sample_env ''PORT''" minimal_service]
      addEnv_unique [of "sample_env ''HOST''" sample_job]
    by (simp add: k envs)
qed

text \<open>
  C1 (as the code has it). The minimal Service is constructed without error and its
  JSON projection holds \<open>envs: []\<close>; the emptiness-pruning stage of \<open>toYAML\<close> drops the
  empty list, so whatever the printer and the backend, the printer is handed the three
  members \<open>name\<close>, \<open>instance_size_slug\<close> and \<open>instance_count\<close> only, and the text is
  the three lines \<open>name: rest\<close>, \<open>instance_size_slug: professional-xs\<close>,
  \<open>instance_count: 1\<close>, with no \<open>envs\<close> line.
\<close>

theorem minimal_service_yaml:
  "Service_new minimal_service_config = Inr minimal_service
   \<and> Service_toJSON minimal_service
       = JObj [] [(''name'', JStr ''rest''), (''instanceSizeSlug'', JStr ''professional-xs''),
                  (''instanceCount'', JNum 1), (''envs'', JArr [])]
   \<and> Service_toYAML dump backend minimal_service
       = dump (JObj [] [(''name'', JStr ''rest''), (''instance_size_slug'', JStr ''professional-xs''),
                        (''instance_count'', JNum 1)])
   \<and> Service_toYAML yaml_dump backend minimal_service
       = Inr (unlines [''name: rest'', ''instance_size_slug: professional-xs'',
                       ''instance_count: 1''])"
proof -
  have new: "Service_new minimal_service_config = Inr minimal_service"
    by code_simp
  have json: "Service_toJSON minimal_service
       = JObj [] [(''name'', JStr ''rest''), (''instanceSizeSlug'', JStr ''professional-xs''),
                  (''instanceCount'', JNum 1), (''envs'', JArr [])]"
    by (simp add: Service_toJSON_def minimal_service_def)
  have none: "extractPulumiOutputs (Service_toJSON minimal_service) [] = []"
    unfolding json by simp
  have tree: "transformKeys (removeEmpty (Service_toJSON minimal_service))
       = JObj [] [(''name'', JStr ''rest''), (''instance_size_slug'', JStr ''professional-xs''),
                  (''instance_count'', JNum 1)]"
    unfolding json by code_simp
  have yaml: "Service_toYAML d backend minimal_service
       = d (JObj [] [(''name'', JStr ''rest''), (''instance_size_slug'', JStr ''professional-xs''),
                     (''instance_count'', JNum 1)])" for d
    by (simp add: Service_toYAML_def toYAML_def none tree)
  have printed: "yaml_dump (JObj [] [(''name'', JStr ''rest''),
         (''instance_size_slug'', JStr ''professional-xs''), (''instance_count'', JNum 1)])
       = Inr (unlines [''name: rest'', ''instance_size_slug: professional-xs'',
                       ''instance_count: 1''])"
    by code_simp
  show ?thesis
    using new json yaml [of dump] yaml [of yaml_dump] printed by simp
qed

text \<open>
  C1 as the spec states it fails: the awaited \<open>toYAML()\<close> of the minimal Service is not
  the four-line text that ends with \<open>envs: []\<close>.
\<close>

theorem minimal_service_yaml_counterexample:
  "Service_new minimal_service_config = Inr minimal_service
   \<and> Service_toYAML yaml_dump None minimal_service
       \<noteq> Inr (unlines [''name: rest'', ''instance_size_slug: professional-xs'',
                        ''instance_count: 1'', ''envs: []''])"
proof -
  have new: "Service_new minimal_service_config = Inr minimal_service"
    by code_simp
  have "Service_toYAML yaml_dump None minimal_service
       = Inr (unlines [''name: rest'', ''instance_size_slug: professional-xs'',
                       ''instance_count: 1''])"
    by code_simp
  then show ?thesis
    using new by (simp add: unlines_def)
qed

lemma toYAMLSync_deferred:
  assumes "\<not> deferred_free obj"
  shows "toYAMLSync dump obj
           = Inl (Error ''Pulumi Outputs found. Use async toYAML() instead to resolve them.'')"
proof -
  have "0 < length (extractPulumiOutputs obj [])"
    using extract_deferred [OF assms, of "[]"] by simp
  then show ?thesis by (simp add: toYAMLSync_def)
qed

lemma addEnv_error:
  assumes "fst (addEnv env this) = Inl e"
  shows "zod_failure e"
  using assms addEnv_duplicate [of env this] addEnv_fresh [of env this]
  by (cases "list_ex (\<lambda>e. ev_key e = ev_key env) (res_envs this)") auto

lemma validate_ValidationError:
  assumes "parse sch input = Inl (ZodError issues)"
  shows "validate wording sch input = Inl (fromZodError wording issues)"
    and "is_ValidationError (fromZodError wording issues)"
  using assms
  by (auto simp: validate_def fromZodError_def Let_def split: list.splits)

text \<open>
  C3 (as the code has it). The validation failures of the core are of two kinds, and
  neither is the structured \<open>ValidationError\<close>. Every failure of an entity constructor
  (EnvironmentVariable, HealthCheck, DockerImage, GitHubSource, and VolumeMount on a
  configuration that is not \<open>null\<close> or \<open>undefined\<close>), of an aggregate constructor
  (Service, Job, Worker) and of \<open>addEnv\<close> is the validation library's \<open>ZodError\<close> with at
  least one issue. The synchronous \<open>toYAMLSync\<close> on a tree with a deferred value fails
  with a plain \<open>Error\<close> that carries a message only. A \<open>ValidationError\<close> comes from the
  \<open>validate\<close> helper alone, which converts the \<open>ZodError\<close> of a failed parse.
\<close>

theorem error_kinds:
  "(EnvironmentVariable_new c1 = Inl x1 \<longrightarrow> zod_failure x1)
   \<and> (HealthCheck_new c2 = Inl x2 \<longrightarrow> zod_failure x2)
   \<and> (DockerImage_new c3 = Inl x3 \<longrightarrow> zod_failure x3)
   \<and> (GitHubSource_new c4 = Inl x4 \<longrightarrow> zod_failure x4)
   \<and> (c5 \<noteq> JUndefined \<and> c5 \<noteq> JNull \<and> VolumeMount_new c5 = Inl x5 \<longrightarrow> zod_failure x5)
   \<and> (Service_new c6 = Inl x6 \<longrightarrow> zod_failure x6)
   \<and> (Job_new c7 = Inl x7 \<longrightarrow> zod_failure x7)
   \<and> (Worker_new c8 = Inl x8 \<longrightarrow> zod_failure x8)
   \<and> (fst (addEnv env this) = Inl x9 \<longrightarrow> zod_failure x9)
   \<and> (\<not> deferred_free obj \<longrightarrow>
        toYAMLSync dump obj
          = Inl (Error ''Pulumi Outputs found. Use async toYAML() instead to resolve them.''))
   \<and> (zod_failure x \<longrightarrow> \<not> is_ValidationError x)
   \<and> \<not> is_ValidationError (Error msg)
   \<and> (parse sch input = Inl (ZodError issues) \<longrightarrow>
        validate wording sch input = Inl (fromZodError wording issues)
        \<and> is_ValidationError (fromZodError wording issues))"
proof -
  have "zod_failure x \<longrightarrow> \<not> is_ValidationError x"
    by (cases x) simp_all
  then show ?thesis
    using EnvironmentVariable_new_zod_failure [of c1 x1] HealthCheck_new_zod_failure [of c2 x2]
      DockerImage_new_zod_failure [of c3 x3] GitHubSource_new_zod_failure [of c4 x4]
      VolumeMount_new_zod_failure [of c5 x5] Service_new_zod_failure [of c6 x6]
      Job_new_zod_failure [of c7 x7] Worker_new_zod_failure [of c8 x8]
      addEnv_error [of env this x9] toYAMLSync_deferred [of obj dump]
      validate_ValidationError [of sch input issues wording]
    by simp
qed

theorem error_kinds_witness:
  "EnvironmentVariable_new (JObj [] [(''key'', JStr ''K'')])
     = Inl (ZodError [ZodIssue custom [Key ''value''] (Message ''Value is required'')])
   \<and> HealthCheck_new (JObj [] [(''httpPath'', JStr ''/''), (''port'', JNum 0)])
     = Inl (ZodError [ZodIssue too_small [Key ''port''] Builtin])
   \<and> DockerImage_new (JObj [] [(''registryType'', JStr ''QUAY''), (''repository'', JStr ''nginx''),
                               (''tag'', JStr ''latest'')])
     = Inl (ZodError [ZodIssue (invalid_enum_value (JStr ''QUAY'') [''DOCKER_HUB'', ''DOCR'', ''GHCR'']) [Key ''registryType''] Builtin])
   \<and> GitHubSource_new (JObj [] [(''repo'', JStr ''/repo''), (''branch'', JStr ''main'')])
     = Inl (ZodError [ZodIssue invalid_string [Key ''repo'']
              (Message (''Must be in format '' @ [CHR 0x22] @ ''owner/repo'' @ [CHR 0x22]))])
   \<and> VolumeMount_new (JObj [] [])
     = Inl (ZodError [ZodIssue (invalid_type ''string'' ''undefined'') [Key ''name''] Builtin,
                      ZodIssue (invalid_type ''string'' ''undefined'') [Key ''mountPath''] Builtin])
   \<and> Service_new (minimal_service_config\<lparr>sc_name := JStr '' ''\<rparr>)
     = Inl (ZodError [ZodIssue custom [Key ''name''] (Message ''Name must be non-empty'')])
   \<and> Job_new (sample_job_config\<lparr>jc_kind := JStr ''DEPLOY''\<rparr>)
     = Inl (ZodError [ZodIssue (invalid_enum_value (JStr ''DEPLOY'') [''PRE_DEPLOY'', ''POST_DEPLOY'']) [Key ''kind''] Builtin])
   \<and> Worker_new (sample_worker_config\<lparr>wc_instanceCount := JNum 0\<rparr>)
     = Inl (ZodError [ZodIssue too_small [Key ''instanceCount'']
              (Message ''Instance count must be a positive integer'')])
   \<and> fst (addEnv (sample_env ''PORT'') sample_job)
     = Inl (ZodError [ZodIssue custom [Key ''key'']
              (Message (''Environment variable with key '' @ [CHR 0x22] @ ''PORT''
                        @ [CHR 0x22] @ '' already exists''))])
   \<and> \<not> deferred_free deferred_tree
   \<and> toYAMLSync yaml_dump deferred_tree
     = Inl (Error ''Pulumi Outputs found. Use async toYAML() instead to resolve them.'')
   \<and> zod_failure (ZodError [ZodIssue custom [Key ''value''] (Message ''Value is required'')])
   \<and> \<not> is_ValidationError
         (ZodError [ZodIssue custom [Key ''value''] (Message ''Value is required'')])
   \<and> parse DockerImageSchema
         (JObj [] [(''registryType'', JStr ''QUAY''), (''repository'', JStr ''nginx''),
                   (''tag'', JStr ''latest'')])
     = Inl (ZodError [ZodIssue (invalid_enum_value (JStr ''QUAY'') [''DOCKER_HUB'', ''DOCR'', ''GHCR''])
                        [Key ''registryType''] Builtin])
   \<and> validate (\<lambda>issue. ''Invalid enum value'') DockerImageSchema
         (JObj [] [(''registryType'', JStr ''QUAY''), (''repository'', JStr ''nginx''),
                   (''tag'', JStr ''latest'')])
     = Inl (ValidationError ''registryType'' (JStr ''QUAY'') ''Invalid enum value'')"
proof -
  have f1: "EnvironmentVariable_new (JObj [] [(''key'', JStr ''K'')])
     = Inl (ZodError [ZodIssue custom [Key ''value''] (Message ''Value is required'')])"
    by code_simp
  have f2: "HealthCheck_new (JObj [] [(''httpPath'', JStr ''/''), (''port'', JNum 0)])
     = Inl (ZodError [ZodIssue too_small [Key ''port''] Builtin])"
    by code_simp
  have f3: "DockerImage_new (JObj [] [(''registryType'', JStr ''QUAY''), (''repository'', JStr ''nginx''),
                               (''tag'', JStr ''latest'')])
     = Inl (ZodError [ZodIssue (invalid_enum_value (JStr ''QUAY'') [''DOCKER_HUB'', ''DOCR'', ''GHCR'']) [Key ''registryType''] Builtin])"
    by code_simp
  have f4: "GitHubSource_new (JObj [] [(''repo'', JStr ''/repo''), (''branch'', JStr ''main'')])
     = Inl (ZodError [ZodIssue invalid_string [Key ''repo'']
              (Message (''Must be in format '' @ [CHR 0x22] @ ''owner/repo'' @ [CHR 0x22]))])"
    by code_simp
  have f5: "VolumeMount_new (JObj [] [])
     = Inl (ZodError [ZodIssue (invalid_type ''string'' ''undefined'') [Key ''name''] Builtin,
                      ZodIssue (invalid_type ''string'' ''undefined'') [Key ''mountPath''] Builtin])"
    by code_simp
  have f6: "Service_new (minimal_service_config\<lparr>sc_name := JStr '' ''\<rparr>)
     = Inl (ZodError [ZodIssue custom [Key ''name''] (Message ''Name must be non-empty'')])"
    by code_simp
  have f7: "Job_new (sample_job_config\<lparr>jc_kind := JStr ''DEPLOY''\<rparr>)
     = Inl (ZodError [ZodIssue (invalid_enum_value (JStr ''DEPLOY'') [''PRE_DEPLOY'', ''POST_DEPLOY'']) [Key ''kind''] Builtin])"
    by code_simp
  have f8: "Worker_new (sample_worker_config\<lparr>wc_instanceCount := JNum 0\<rparr>)
     = Inl (ZodError [ZodIssue too_small [Key ''instanceCount'']
              (Message ''Instance count must be a positive integer'')])"
    by code_simp
  have f9: "fst (addEnv (sample_env ''PORT'') sample_job)
     = Inl (ZodError [ZodIssue custom [Key ''key'']
              (Message (''Environment variable with key '' @ [CHR 0x22] @ ''PORT''
                        @ [CHR 0x22] @ '' already exists''))])"
    by code_simp
  have f10: "\<not> deferred_free deferred_tree"
    by (simp add: deferred_tree_def)
  have f11: "parse DockerImageSchema
         (JObj [] [(''registryType'', JStr ''QUAY''), (''repository'', JStr ''nginx''),
                   (''tag'', JStr ''latest'')])
     = Inl (ZodError [ZodIssue (invalid_enum_value (JStr ''QUAY'') [''DOCKER_HUB'', ''DOCR'', ''GHCR''])
                        [Key ''registryType''] Builtin])"
    by code_simp
  have f12: "fromZodError (\<lambda>issue. ''Invalid enum value'')
         [ZodIssue (invalid_enum_value (JStr ''QUAY'') [''DOCKER_HUB'', ''DOCR'', ''GHCR''])
            [Key ''registryType''] Builtin]
     = ValidationError ''registryType'' (JStr ''QUAY'') ''Invalid enum value''"
    by (simp add: fromZodError_def issue_received_def message_text_def)
  show ?thesis
    using f1 f2 f3 f4 f5 f6 f7 f8 f9 f10 f11 f12
      error_kinds [where
        ?c1.0 = "JObj [] [(''key'', JStr ''K'')]" and
        ?x1.0 = "ZodError [ZodIssue custom [Key ''value''] (Message ''Value is required'')]" and
        ?c2.0 = "JObj [] [(''httpPath'', JStr ''/''), (''port'', JNum 0)]" and
        ?x2.0 = "ZodError [ZodIssue too_small [Key ''port''] Builtin]" and
        ?c3.0 = "JObj [] [(''registryType'', JStr ''QUAY''), (''repository'', JStr ''nginx''),
                               (''tag'', JStr ''latest'')]" and
        ?x3.0 = "ZodError [ZodIssue (invalid_enum_value (JStr ''QUAY'') [''DOCKER_HUB'', ''DOCR'', ''GHCR'']) [Key ''registryType''] Builtin]" and
        ?c4.0 = "JObj [] [(''repo'', JStr ''/repo''), (''branch'', JStr ''main'')]" and
        ?x4.0 = "ZodError [ZodIssue invalid_string [Key ''repo'']
              (Message (''Must be in format '' @ [CHR 0x22] @ ''owner/repo'' @ [CHR 0x22]))]" and
        ?c5.0 = "JObj [] []" and
        ?x5.0 = "ZodError [ZodIssue (invalid_type ''string'' ''undefined'') [Key ''name''] Builtin,
                      ZodIssue (invalid_type ''string'' ''undefined'') [Key ''mountPath''] Builtin]" and
        ?c6.0 = "minimal_service_config\<lparr>sc_name := JStr '' ''\<rparr>" and
        ?x6.0 = "ZodError [ZodIssue custom [Key ''name''] (Message ''Name must be non-empty'')]" and
        ?c7.0 = "sample_job_config\<lparr>jc_kind := JStr ''DEPLOY''\<rparr>" and
        ?x7.0 = "ZodError [ZodIssue (invalid_enum_value (JStr ''DEPLOY'') [''PRE_DEPLOY'', ''POST_DEPLOY'']) [Key ''kind''] Builtin]" and
        ?c8.0 = "sample_worker_config\<lparr>wc_instanceCount := JNum 0\<rparr>" and
        ?x8.0 = "ZodError [ZodIssue too_small [Key ''instanceCount'']
              (Message ''Instance count must be a positive integer'')]" and
        env = "sample_env ''PORT''" and this = sample_job and
        ?x9.0 = "ZodError [ZodIssue custom [Key ''key'']
              (Message (''Environment variable with key '' @ [CHR 0x22] @ ''PORT''
                        @ [CHR 0x22] @ '' already exists''))]" and
        obj = deferred_tree and dump = yaml_dump and
        x = "ZodError [ZodIssue custom [Key ''value''] (Message ''Value is required'')]" and
        msg = "[]" and sch = DockerImageSchema and
        input = "JObj [] [(''registryType'', JStr ''QUAY''), (''repository'', JStr ''nginx''),
                   (''tag'', JStr ''latest'')]" and
        issues = "[ZodIssue (invalid_enum_value (JStr ''QUAY'') [''DOCKER_HUB'', ''DOCR'', ''GHCR''])
                     [Key ''registryType''] Builtin]" and
        wording = "\<lambda>issue. ''Invalid enum value''"]
    by simp
qed

text \<open>
  C3 as the spec states it fails: the error of \<open>toYAMLSync\<close> on a tree with a deferred
  value is a plain \<open>Error\<close>, and the error of a constructor is a \<open>ZodError\<close>; neither is
  a \<open>ValidationError\<close> with a field, a value and a constraint.
\<close>

theorem error_kinds_counterexample:
  "toYAMLSync yaml_dump deferred_tree
     = Inl (Error ''Pulumi Outputs found. Use async toYAML() instead to resolve them.'')
   \<and> \<not> is_ValidationError
         (Error ''Pulumi Outputs found. Use async toYAML() instead to resolve them.'')
   \<and> EnvironmentVariable_new (JObj [] [(''key'', JStr ''K'')])
     = Inl (ZodError [ZodIssue custom [Key ''value''] (Message ''Value is required'')])
   \<and> \<not> is_ValidationError
         (ZodError [ZodIssue custom [Key ''value''] (Message ''Value is required'')])"
proof -
  have "toYAMLSync yaml_dump deferred_tree
     = Inl (Error ''Pulumi Outputs found. Use async toYAML() instead to resolve them.'')"
    by code_simp
  moreover have "EnvironmentVariable_new (JObj [] [(''key'', JStr ''K'')])
     = Inl (ZodError [ZodIssue custom [Key ''value''] (Message ''Value is required'')])"
    by code_simp
  ultimately show ?thesis by simp
qed


end
